theory Spec2Isabelle
  imports Main "HOL-Library.Word"
begin

section \<open>The node tree and the Selection (document.go)\<close>

text \<open>
  A node of the parsed markup tree, as \<open>html.Node\<close> of golang.org/x/net/html has it: its
  type, its character data (the text of a text node, the tag name of an element), its
  attributes in order, and its children in document order (the \<open>FirstChild\<close> /
  \<open>NextSibling\<close> chain). A string of the model is the sequence of the characters of a Go
  string, each a code point below 256.
\<close>

datatype node_type = ErrorNode | TextNode | DocumentNode | ElementNode | CommentNode | DoctypeNode

datatype node = Node (Type: node_type) (Data: string) (Attr: "(string \<times> string) list")
  (children: "node list")

text \<open>\<open>Document\<close> is a struct with the one field \<open>Nodes\<close>: the Selection is its node list.\<close>

type_synonym document = "node list"

definition newDocumentWithNode :: "node \<Rightarrow> document" where
  "newDocumentWithNode n = [n]"

definition newDocumentWithNodes :: "node list \<Rightarrow> document" where
  "newDocumentWithNodes ns = ns"

definition Length :: "document \<Rightarrow> int" where
  "Length doc = int (length doc)"

text \<open>
  \<open>Document.Text\<close>: the closure \<open>f\<close> writes the data of a text node to the buffer and then
  visits the children from first to last; the method runs it over every node of the Selection.
  The buffer is the string returned.
\<close>

fun Text_f :: "node \<Rightarrow> string" where
  "Text_f (Node ty d a cs) = (if ty = TextNode then d else []) @ concat (map Text_f cs)"

definition Text :: "document \<Rightarrow> string" where
  "Text doc = concat (map Text_f doc)"

text \<open>
  \<open>strings.TrimSpace\<close> removes the leading and trailing white space of a string, white space
  as \<open>unicode.IsSpace\<close> defines it: among the code points below 256 it is tab, line feed,
  vertical tab, form feed, carriage return, space, U+0085 and U+00A0.
\<close>

definition isSpace :: "char \<Rightarrow> bool" where
  "isSpace c = (of_char c \<in> {9, 10, 11, 12, 13, 32, 133, 160 :: nat})"

definition TrimSpace :: "string \<Rightarrow> string" where
  "TrimSpace s = rev (dropWhile isSpace (rev (dropWhile isSpace s)))"

text \<open>\<open>textVal\<close>, the one value function of the decoder: the trimmed text of the Selection.\<close>

definition textVal :: "document \<Rightarrow> string" where
  "textVal doc = TrimSpace (Text doc)"

text \<open>
  The words of the specification for \<open>text\<close>: the nodes of a subtree in document order (a node
  before its children, the children from first to last), and the character data of those that
  are text nodes, concatenated.
\<close>

fun document_order :: "node \<Rightarrow> node list" where
  "document_order (Node ty d a cs) = Node ty d a cs # concat (map document_order cs)"

definition text_spec :: "document \<Rightarrow> string" where
  "text_spec doc =
     concat (map Data (filter (\<lambda>n. Type n = TextNode) (concat (map document_order doc))))"

lemma Text_f_document_order:
  "Text_f n = concat (map Data (filter (\<lambda>m. Type m = TextNode) (document_order n)))"
proof (induction n rule: Text_f.induct)
  case (1 ty d a cs)
  have "concat (map Text_f cs) =
        concat (map Data (filter (\<lambda>m. Type m = TextNode) (concat (map document_order cs))))"
    using 1 by (induction cs) auto
  then show ?case by simp
qed


section \<open>Go types and values (package reflect)\<close>

text \<open>
  The decoder inspects its destination through package \<open>reflect\<close>. A Go type is a finite
  tree; the bit size of a numeric type is kept (\<open>int\<close> and \<open>uint\<close> are 64 bits). A struct
  field has its name and its tag, a list of key and value pairs (\<open>Tag.Get\<close> looks a key up).
  \<open>TNodes\<close> is the type \<open>[]*html.Node\<close>, which the decoder singles out. \<open>TUnmarshaler name t\<close>
  is a named type with underlying type \<open>t\<close> whose pointer type has the method
  \<open>UnmarshalHTML\<close>. \<open>TOther\<close> stands for the kinds the decoder has no case for (complex
  numbers, channels, functions, \<open>uintptr\<close>, unsafe pointers).
\<close>

datatype kind = KBool | KInt | KUint | KFloat | KString | KInterface | KStruct | KSlice
  | KArray | KMap | KPtr | KOther

datatype gtype =
    TBool
  | TInt nat
  | TUint nat
  | TFloat nat
  | TString
  | TInterface nat
  | TStruct "sfield list"
  | TSlice gtype
  | TArray nat gtype
  | TMap gtype gtype
  | TPtr gtype
  | TNodes
  | TUnmarshaler string gtype
  | TOther
and sfield = SField (Name: string) (Tag: "(string \<times> string) list") (ftype: gtype)

fun Kind :: "gtype \<Rightarrow> kind" where
  "Kind TBool = KBool"
| "Kind (TInt w) = KInt"
| "Kind (TUint w) = KUint"
| "Kind (TFloat w) = KFloat"
| "Kind TString = KString"
| "Kind (TInterface n) = KInterface"
| "Kind (TStruct fs) = KStruct"
| "Kind (TSlice t) = KSlice"
| "Kind (TArray n t) = KArray"
| "Kind (TMap k t) = KMap"
| "Kind (TPtr t) = KPtr"
| "Kind TNodes = KSlice"
| "Kind (TUnmarshaler name t) = Kind t"
| "Kind TOther = KOther"

text \<open>
  A value carries its type, as a \<open>reflect.Value\<close> does. A float is its IEEE 754 bit pattern.
  An interface value holds nothing (\<open>None\<close>) or a value; a pointer is nil (\<open>None\<close>) or points
  to a value. A struct value lists its fields, each with the name and tag of its declaration.
\<close>

datatype gval =
    VBool bool
  | VInt nat int
  | VUint nat nat
  | VFloat nat "64 word"
  | VString string
  | VInterface nat "gval option"
  | VStruct "fval list"
  | VSlice gtype "gval list"
  | VArray gtype "gval list"
  | VMap gtype gtype
  | VPtr gtype "gval option"
  | VNodes "node list"
  | VUnmarshaler string gval
  | VOther
and fval = FVal (fname: string) (ftag: "(string \<times> string) list") (fvalue: gval)

fun type_of :: "gval \<Rightarrow> gtype"
  and type_of_field :: "fval \<Rightarrow> sfield" where
  "type_of (VBool b) = TBool"
| "type_of (VInt w i) = TInt w"
| "type_of (VUint w n) = TUint w"
| "type_of (VFloat w x) = TFloat w"
| "type_of (VString s) = TString"
| "type_of (VInterface n x) = TInterface n"
| "type_of (VStruct fs) = TStruct (map type_of_field fs)"
| "type_of (VSlice t vs) = TSlice t"
| "type_of (VArray t vs) = TArray (length vs) t"
| "type_of (VMap k t) = TMap k t"
| "type_of (VPtr t p) = TPtr t"
| "type_of (VNodes ns) = TNodes"
| "type_of (VUnmarshaler name s) = TUnmarshaler name (type_of s)"
| "type_of VOther = TOther"
| "type_of_field (FVal name tg x) = SField name tg (type_of x)"

text \<open>The zero value of a type, as \<open>reflect.New\<close> and \<open>reflect.Zero\<close> allocate it.\<close>

fun zero :: "gtype \<Rightarrow> gval"
  and zero_field :: "sfield \<Rightarrow> fval" where
  "zero TBool = VBool False"
| "zero (TInt w) = VInt w 0"
| "zero (TUint w) = VUint w 0"
| "zero (TFloat w) = VFloat w 0"
| "zero TString = VString []"
| "zero (TInterface n) = VInterface n None"
| "zero (TStruct fs) = VStruct (map zero_field fs)"
| "zero (TSlice t) = VSlice t []"
| "zero (TArray n t) = VArray t (replicate n (zero t))"
| "zero (TMap k t) = VMap k t"
| "zero (TPtr t) = VPtr t None"
| "zero TNodes = VNodes []"
| "zero (TUnmarshaler name t) = VUnmarshaler name (zero t)"
| "zero TOther = VOther"
| "zero_field (SField name tg t) = FVal name tg (zero t)"

text \<open>\<open>Tag.Get\<close>: the value of a key of a struct tag, the empty string when it is absent.\<close>

definition Tag_Get :: "(string \<times> string) list \<Rightarrow> string \<Rightarrow> string" where
  "Tag_Get tg key = (case map_of tg key of None \<Rightarrow> [] | Some v \<Rightarrow> v)"


section \<open>Errors (unmarshal-error.go)\<close>

text \<open>
  \<open>FldOrIdx\<close> is an \<open>interface{}\<close>: nil, a field name, an index, a pointer to an index, or
  any other value (kept as its \<open>%v\<close> rendering). \<open>V\<close> is a \<open>reflect.Value\<close>; of it the
  error code reads whether it is valid, whether it is addressable, and its type, so that is
  what the model keeps: \<open>Invalid\<close> is the zero \<open>reflect.Value{}\<close>.
\<close>

datatype fldOrIdx = FNil | FString string | FInt int | FIntPtr int | FOther string

datatype rvalue = Invalid | RValue (CanAddr: bool) (rtype: gtype)

text \<open>
  An \<open>error\<close> is a \<open>*CannotUnmarshalError\<close> (a frame) or any other error, of which only the
  message is read. \<open>Err\<close> is nil (\<open>None\<close>) or the cause.
\<close>

datatype frame = CannotUnmarshalError (Err: "error option") (Val: string) (FldOrIdx: fldOrIdx)
    (V: rvalue) (Reason: string) (XPath: string)
and error = Frame frame | ErrorString string

definition nonPointer :: string where
  "nonPointer = ''non-pointer value''"
definition nodeNotFound :: string where
  "nodeNotFound = ''node not found in document''"
definition nilDestination :: string where
  "nilDestination = ''destination is nil''"
definition arrayLengthMismatch :: string where
  "arrayLengthMismatch = ''array length does not match document elements found''"
definition customUnmarshalError :: string where
  "customUnmarshalError = ''a custom Unmarshaler implementation threw an error''"
definition typeConversionError :: string where
  "typeConversionError = ''a type conversion error occurred''"
definition mapIsNotSupportedError :: string where
  "mapIsNotSupportedError = ''map type is not currently supported''"
definition multipleNodesDetected :: string where
  "multipleNodesDetected = ''multiple nodes detected for selector''"

text \<open>
  What a Go function returns: a value, an error, or it panics. A function that returns only an
  \<open>error\<close> returns \<open>Ok ()\<close> for nil.
\<close>

datatype 'a result = Ok 'a | Failed error | Panic

section \<open>What the decoder calls outside the repository's sources\<close>

text \<open>
  The selector engine (\<open>htmlquery.Find\<close>, for a selector expression that compiles), the
  parsers of \<open>strconv\<close>, the conversion of a float64 to float32, the \<open>UnmarshalHTML\<close> method
  of each custom type (given the nodes and the value it is called on, it returns the value it
  leaves and its error) and \<open>html.Parse\<close> are parameters of the model. So is
  \<open>Document.FindOne\<close>, the one-result form of \<open>Find\<close>, whose source is not among the files.
\<close>

record env =
  htmlquery_Find :: "node \<Rightarrow> string \<Rightarrow> node list"
  FindOne :: "document \<Rightarrow> string \<Rightarrow> document result"
  UnmarshalHTML :: "string \<Rightarrow> node list \<Rightarrow> gval \<Rightarrow> gval \<times> error option"
  ParseBool :: "string \<Rightarrow> error + bool"
  ParseInt :: "string \<Rightarrow> error + int"
  ParseUint :: "string \<Rightarrow> error + nat"
  ParseFloat :: "string \<Rightarrow> error + 64 word"
  float32 :: "64 word \<Rightarrow> 64 word"
  html_Parse :: "string \<Rightarrow> error + node"


section \<open>The Selection's operations (document.go)\<close>

text \<open>
  \<open>Document.Find\<close> evaluates the selector against the first node of the Selection:
  \<open>doc.Nodes[0]\<close> panics when the Selection is empty.
\<close>

definition Find :: "env \<Rightarrow> document \<Rightarrow> string \<Rightarrow> document result" where
  "Find env doc selector =
     (case doc of
        [] \<Rightarrow> Panic
      | n # _ \<Rightarrow> Ok (newDocumentWithNodes (htmlquery_Find env n selector)))"

definition maxInt :: int where
  "maxInt = 2 ^ 63 - 1"

text \<open>
  \<open>Document.Slice\<close>: \<open>doc.Nodes[start:end]\<close> panics unless \<open>0 \<le> start \<le> end\<close> and \<open>end\<close> is
  within the capacity of the slice, which the model takes to be its length.
\<close>

definition Slice :: "document \<Rightarrow> int \<Rightarrow> int \<Rightarrow> document result" where
  "Slice doc start end' =
     (let n = int (length doc);
          s = (if start < 0 then start + n else start);
          e = (if end' = maxInt then n else if end' < 0 then end' + n else end')
      in if 0 \<le> s \<and> s \<le> e \<and> e \<le> n
         then Ok (newDocumentWithNodes (take (nat (e - s)) (drop (nat s) doc)))
         else Panic)"

definition Eq :: "document \<Rightarrow> int \<Rightarrow> document result" where
  "Eq doc index =
     (let n = int (length doc);
          i = (if index < 0 then index + n else index)
      in if i \<ge> n \<or> i < 0 then Ok [] else Slice doc i (i + 1))"

text \<open>
  Modelled from the spec: \<open>Document.IsEmpty\<close> (the file of the sources that declares
  \<open>Document\<close> is an earlier one, without it): \<open>isEmpty\<close>, the Selection has no node.
\<close>

definition IsEmpty :: "document \<Rightarrow> bool" where
  "IsEmpty doc = (doc = [])"

section \<open>The directive of a field (unmarshal.go)\<close>

record xpathTag =
  tag :: string
  required :: bool

definition tagName :: string where
  "tagName = ''xpath''"
definition ignoreTag :: string where
  "ignoreTag = ''-''"
definition requiredTag :: string where
  "requiredTag = ''xpath_required''"

definition valFunc :: "xpathTag \<Rightarrow> document \<Rightarrow> string" where
  "valFunc t = textVal"

text \<open>
  \<open>hasIndex\<close> matches the selector against the regular expression \<open>\[\d+\]$\<close>: some
  substring that ends where the string ends is an opening bracket, one or more decimal digits and
  a closing bracket. The match is computed from the end of the string.
\<close>

definition isDigit :: "char \<Rightarrow> bool" where
  "isDigit c = (48 \<le> (of_char c :: nat) \<and> (of_char c :: nat) \<le> 57)"

definition indexRegEx_MatchString :: "string \<Rightarrow> bool" where
  "indexRegEx_MatchString s =
     (case rev s of
        [] \<Rightarrow> False
      | c # r \<Rightarrow>
          c = CHR '']'' \<and> takeWhile isDigit r \<noteq> [] \<and>
          (case dropWhile isDigit r of [] \<Rightarrow> False | b # _ \<Rightarrow> b = CHR ''[''))"

definition hasIndex :: "xpathTag \<Rightarrow> bool" where
  "hasIndex t = indexRegEx_MatchString (tag t)"

text \<open>\<open>strings.HasSuffix\<close>.\<close>

definition HasSuffix :: "string \<Rightarrow> string \<Rightarrow> bool" where
  "HasSuffix s suffix =
     (length s \<ge> length suffix \<and> drop (length s - length suffix) s = suffix)"

definition hasSuffix :: "xpathTag \<Rightarrow> string \<Rightarrow> bool" where
  "hasSuffix t s = HasSuffix (tag t) s"

section \<open>Following pointers to the destination\<close>

text \<open>
  Modelled from the spec: \<open>indirect\<close> (its source is not among the files). It follows the
  optional-reference indirections of the destination; a nil reference on the way is allocated a
  zero-valued instance and rebound; it stops at a location whose type is custom-decodable and
  returns that hook, with the zero \<open>reflect.Value{}\<close> (the test \<open>TestUnmarshalError\<close> reads
  \<open>unknown: invalid value\<close> as the type of such a frame). In a model that passes the state,
  this is three functions: \<open>alloc\<close> is the destination after the allocations, \<open>indirect\<close> the
  pair of the hook (the name of the custom type) and the location reached, and \<open>rebind\<close> writes
  a new value of that location back through the pointers.
\<close>

fun new_chain :: "gtype \<Rightarrow> gval" where
  "new_chain (TPtr t) = VPtr t (Some (new_chain t))"
| "new_chain t = zero t"

fun alloc :: "gval \<Rightarrow> gval" where
  "alloc (VPtr t None) = VPtr t (Some (new_chain t))"
| "alloc (VPtr t (Some x)) = VPtr t (Some (alloc x))"
| "alloc v = v"

fun target :: "gval \<Rightarrow> gval" where
  "target (VPtr t (Some x)) = target x"
| "target v = v"

fun rebind :: "gval \<Rightarrow> gval \<Rightarrow> gval" where
  "rebind (VPtr t (Some x)) new = VPtr t (Some (rebind x new))"
| "rebind v new = new"

definition indirect :: "gval \<Rightarrow> string option \<times> gval" where
  "indirect v =
     (let x = target (alloc v)
      in case x of VUnmarshaler name s \<Rightarrow> (Some name, x) | _ \<Rightarrow> (None, x))"

text \<open>
  Modelled from the spec: \<open>TypeDeref\<close> (its source is not among the files): the type behind
  the optional-reference indirections of an element type. A growable sequence decodes each node
  into a freshly allocated element of it.
\<close>

fun TypeDeref :: "gtype \<Rightarrow> gtype" where
  "TypeDeref (TPtr t) = TypeDeref t"
| "TypeDeref t = t"


section \<open>The decoder (unmarshal.go)\<close>

definition wrapUnmErr :: "error option \<Rightarrow> rvalue \<Rightarrow> unit result" where
  "wrapUnmErr err v =
     (case err of
        None \<Rightarrow> Ok ()
      | Some e \<Rightarrow> Failed (Frame (CannotUnmarshalError (Some e) [] FNil v customUnmarshalError [])))"

text \<open>
  The call \<open>wrapUnmErr(u.UnmarshalHTML(doc.Nodes), v)\<close> on the location that \<open>indirect\<close>
  reached: the hook leaves its value there, and \<open>v\<close> is the zero \<open>reflect.Value{}\<close>.
\<close>

definition callUnmarshaler :: "env \<Rightarrow> document \<Rightarrow> gval \<Rightarrow> gval \<times> unit result" where
  "callUnmarshaler env doc x =
     (case x of
        VUnmarshaler name s \<Rightarrow>
          (let (s', err) = UnmarshalHTML env name doc s
           in (VUnmarshaler name s', wrapUnmErr err Invalid))
      | _ \<Rightarrow> (x, Ok ()))"

text \<open>
  \<open>SetInt\<close>, \<open>SetUint\<close> and \<open>SetFloat\<close> store a 64-bit value in a location of the
  destination's size: an integer is truncated to its bits, a float64 converted to float32.
\<close>

definition SetInt :: "nat \<Rightarrow> int \<Rightarrow> int" where
  "SetInt w x = (x + 2 ^ (w - 1)) mod 2 ^ w - 2 ^ (w - 1)"

definition SetUint :: "nat \<Rightarrow> nat \<Rightarrow> nat" where
  "SetUint w x = x mod 2 ^ w"

definition SetFloat :: "env \<Rightarrow> nat \<Rightarrow> 64 word \<Rightarrow> 64 word" where
  "SetFloat env w x = (if w = 32 then float32 env x else x)"

text \<open>
  \<open>unmarshalLiteral\<close> returns the destination it leaves and its error. The switch is on the
  kind of the destination, which is never a custom-decodable one here.
\<close>

definition unmarshalLiteral :: "env \<Rightarrow> string \<Rightarrow> gval \<Rightarrow> bool \<Rightarrow> gval \<times> error option" where
  "unmarshalLiteral env s v required' =
     (let trimmedValue = TrimSpace s
      in case v of
           VInterface n c \<Rightarrow>
             (if n = 0 then (VInterface n (Some (VString s)), None) else (v, None))
         | VBool b \<Rightarrow>
             (case ParseBool env trimmedValue of
                Inl err \<Rightarrow> (v, Some err)
              | Inr i \<Rightarrow> (VBool i, None))
         | VInt w x \<Rightarrow>
             (if trimmedValue = [] then (v, None)
              else case ParseInt env trimmedValue of
                     Inl err \<Rightarrow> (if required' then (v, Some err) else (v, None))
                   | Inr i \<Rightarrow> (VInt w (SetInt w i), None))
         | VUint w x \<Rightarrow>
             (if trimmedValue = [] then (v, None)
              else case ParseUint env trimmedValue of
                     Inl err \<Rightarrow> (if required' then (v, Some err) else (v, None))
                   | Inr i \<Rightarrow> (VUint w (SetUint w i), None))
         | VFloat w x \<Rightarrow>
             (if trimmedValue = [] then (v, None)
              else case ParseFloat env trimmedValue of
                     Inl err \<Rightarrow> (if required' then (v, Some err) else (v, None))
                   | Inr i \<Rightarrow> (VFloat w (SetFloat env w i), None))
         | VString x \<Rightarrow> (VString s, None)
         | _ \<Rightarrow> (v, None))"

definition findByTag :: "env \<Rightarrow> document \<Rightarrow> xpathTag \<Rightarrow> document result" where
  "findByTag env doc t = (if tag t \<noteq> [] then Find env doc (tag t) else Ok doc)"

definition findOneByTag :: "env \<Rightarrow> document \<Rightarrow> xpathTag \<Rightarrow> document result" where
  "findOneByTag env doc t = (if tag t \<noteq> [] then FindOne env doc (tag t) else Ok doc)"

text \<open>
  \<open>findForTypeByTag\<close>: \<open>v\<close> is the field, an addressable value. The kinds of the last case
  of the switch are all those not named before it.
\<close>

definition findForTypeByTag :: "env \<Rightarrow> document \<Rightarrow> gval \<Rightarrow> xpathTag \<Rightarrow> document result" where
  "findForTypeByTag env doc v t =
     (let hasIndex' = hasIndex t;
          hasTextSuffix = hasSuffix t ''text()''
      in case (if hasIndex' \<and> \<not> hasTextSuffix then findOneByTag env doc t
               else findByTag env doc t) of
           Failed err \<Rightarrow> Failed err
         | Panic \<Rightarrow> Panic
         | Ok sel \<Rightarrow>
             (if Kind (type_of v) \<in> {KStruct, KSlice, KArray, KMap, KInterface, KPtr} then Ok sel
              else if hasIndex' \<or> hasTextSuffix then Ok sel
              else case findByTag env doc t of
                     Failed err \<Rightarrow> Failed err
                   | Panic \<Rightarrow> Panic
                   | Ok sel' \<Rightarrow>
                       (if Length sel' > 1
                        then Failed (Frame (CannotUnmarshalError None [] FNil
                               (RValue True (type_of v)) multipleNodesDetected (tag t)))
                        else Ok sel)))"

text \<open>Sizes of values and types, for the termination of the decoder.\<close>

fun tsize :: "gtype \<Rightarrow> nat"
  and tsize_field :: "sfield \<Rightarrow> nat" where
  "tsize (TStruct fs) = Suc (sum_list (map tsize_field fs))"
| "tsize (TSlice t) = 3 + tsize t"
| "tsize (TArray n t) = Suc (n * Suc (tsize t))"
| "tsize (TPtr t) = Suc (tsize t)"
| "tsize TBool = 1"
| "tsize (TInt w) = 1"
| "tsize (TUint w) = 1"
| "tsize (TFloat w) = 1"
| "tsize TString = 1"
| "tsize (TInterface n) = 1"
| "tsize (TMap k t) = 1"
| "tsize TNodes = 1"
| "tsize (TUnmarshaler name t) = 1"
| "tsize TOther = 1"
| "tsize_field (SField name tg t) = Suc (tsize t)"

fun vsize :: "gval \<Rightarrow> nat"
  and vsize_field :: "fval \<Rightarrow> nat" where
  "vsize (VStruct fs) = Suc (sum_list (map vsize_field fs))"
| "vsize (VSlice t vs) = 3 + tsize t"
| "vsize (VArray t vs) = Suc (sum_list (map (\<lambda>x. Suc (vsize x)) vs))"
| "vsize (VPtr t None) = Suc (tsize t)"
| "vsize (VPtr t (Some x)) = Suc (vsize x)"
| "vsize (VBool b) = 1"
| "vsize (VInt w i) = 1"
| "vsize (VUint w n) = 1"
| "vsize (VFloat w x) = 1"
| "vsize (VString s) = 1"
| "vsize (VInterface n c) = 1"
| "vsize (VMap k t) = 1"
| "vsize (VNodes ns) = 1"
| "vsize (VUnmarshaler name s) = 1"
| "vsize VOther = 1"
| "vsize_field (FVal name tg x) = Suc (vsize x)"

lemma vsize_zero: "vsize (zero t) = tsize t" "vsize_field (zero_field f) = tsize_field f"
proof (induction t and f)
  case (TStruct fs)
  then have "sum_list (map (\<lambda>f. vsize_field (zero_field f)) fs) = sum_list (map tsize_field fs)"
    by (induction fs) auto
  then show ?case by (simp add: comp_def)
next
  case (TArray n t)
  then show ?case by (simp add: sum_list_replicate)
qed simp_all

lemma vsize_new_chain: "vsize (new_chain t) \<le> tsize t"
  by (induction t rule: new_chain.induct) (simp_all add: vsize_zero del: zero.simps)

lemma vsize_alloc: "vsize (alloc v) \<le> vsize v"
  by (induction v rule: alloc.induct) (simp_all add: vsize_new_chain)

lemma vsize_target: "vsize (target v) \<le> vsize v"
  by (induction v rule: target.induct) simp_all

lemma snd_indirect: "snd (indirect v) = target (alloc v)"
  by (simp add: indirect_def Let_def split: gval.splits)

lemma vsize_indirect: "indirect v = (u, x) \<Longrightarrow> vsize x \<le> vsize v"
proof -
  assume "indirect v = (u, x)"
  then have "x = target (alloc v)"
    using snd_indirect [of v] by simp
  then show ?thesis
    using vsize_target [of "alloc v"] vsize_alloc [of v] by simp
qed

lemma vsize_field_pos: "0 < vsize_field f"
  by (cases f) simp

lemma tsize_TypeDeref: "tsize (TypeDeref t) \<le> tsize t"
  by (induction t rule: TypeDeref.induct) simp_all


text \<open>
  \<open>SetLen\<close> sets the length of a slice to \<open>n\<close>, keeping its first elements; it panics when
  \<open>n\<close> is beyond the capacity, which the length 0 that the decoder sets never is.
\<close>

definition SetLen :: "gval list \<Rightarrow> nat \<Rightarrow> gval list" where
  "SetLen vs n = take n vs"

text \<open>
  The element that \<open>unmarshalSlice\<close> appends: \<open>newV\<close> is a pointer to the type
  \<open>TypeDeref(eleT)\<close>; unless the element type is a pointer, what it points to is taken
  (\<open>newV.Elem()\<close>). \<open>reflect.Append\<close> panics on a value that is not assignable to the element
  type, so on an element type with more than one pointer.
\<close>

definition Elem :: "gval \<Rightarrow> gval result" where
  "Elem v = (case v of VPtr t (Some x) \<Rightarrow> Ok x | _ \<Rightarrow> Panic)"

definition appendElem :: "gtype \<Rightarrow> gval \<Rightarrow> gval result" where
  "appendElem eleT newV =
     (if Kind eleT \<noteq> KPtr then Elem newV
      else if TPtr (TypeDeref eleT) = eleT then Ok newV
      else Panic)"

text \<open>
  The decoder. Every function returns the destination it leaves together with what the Go
  function returns: the decoder writes to the destination in place and does not undo what it
  wrote when it fails: a slice that fails is left with the length 0 that \<open>SetLen\<close> gave it, since
  \<open>slice.Set(v)\<close> is not reached. \<open>structFields\<close>, \<open>arrayElems\<close> and \<open>sliceElems\<close> are the loops of
  \<open>unmarshalStruct\<close>, \<open>unmarshalArray\<close> and \<open>unmarshalSlice\<close>, and \<open>structField\<close> is one
  turn of the first: \<open>Ok\<close> is \<open>continue\<close> or the end of the loop's body. The \<open>V\<close> of a frame
  is addressable (the destination is reached through a pointer), but for the slice once
  \<open>reflect.Append\<close> has returned a fresh slice value. The three functions below order the calls
  for the proof of termination.
\<close>

fun call_size where
  "call_size (Inl (Inl (Inl (env, doc, v, t)))) = vsize v"
| "call_size (Inl (Inl (Inr (env, doc, v)))) = vsize v"
| "call_size (Inl (Inr (Inl (env, doc, sv, fs)))) = sum_list (map vsize_field fs)"
| "call_size (Inl (Inr (Inr (env, doc, sv, f)))) = vsize_field f"
| "call_size (Inr (Inl (Inl (env, doc, v, t)))) = vsize v"
| "call_size (Inr (Inl (Inr (env, doc, av, t, i, vs)))) = sum_list (map (\<lambda>x. Suc (vsize x)) vs)"
| "call_size (Inr (Inr (Inl (env, doc, v, t)))) = vsize v"
| "call_size (Inr (Inr (Inr (env, doc, eleT, t, i, acc)))) = 2 + tsize eleT"

fun call_rank :: "(('a + 'b) + ('c + 'd)) + (('e + 'f) + ('g + 'h)) \<Rightarrow> nat" where
  "call_rank (Inl (Inl (Inl a))) = 1"
| "call_rank (Inl (Inr (Inl a))) = 1"
| "call_rank a = 0"

fun call_aux where
  "call_aux (Inr (Inr (Inr (env, doc, eleT, t, i, acc)))) = nat (Length doc - i)"
| "call_aux a = 0"

function unmarshalByType :: "env \<Rightarrow> document \<Rightarrow> gval \<Rightarrow> xpathTag \<Rightarrow> gval \<times> unit result"
  and unmarshalStruct :: "env \<Rightarrow> document \<Rightarrow> gval \<Rightarrow> gval \<times> unit result"
  and structFields :: "env \<Rightarrow> document \<Rightarrow> rvalue \<Rightarrow> fval list \<Rightarrow> fval list \<times> unit result"
  and structField :: "env \<Rightarrow> document \<Rightarrow> rvalue \<Rightarrow> fval \<Rightarrow> fval \<times> unit result"
  and unmarshalArray :: "env \<Rightarrow> document \<Rightarrow> gval \<Rightarrow> xpathTag \<Rightarrow> gval \<times> unit result"
  and arrayElems :: "env \<Rightarrow> document \<Rightarrow> rvalue \<Rightarrow> xpathTag \<Rightarrow> int \<Rightarrow> gval list \<Rightarrow> gval list \<times> unit result"
  and unmarshalSlice :: "env \<Rightarrow> document \<Rightarrow> gval \<Rightarrow> xpathTag \<Rightarrow> gval \<times> unit result"
  and sliceElems :: "env \<Rightarrow> document \<Rightarrow> gtype \<Rightarrow> xpathTag \<Rightarrow> int \<Rightarrow> gval list \<Rightarrow> gval list \<times> unit result"
  where
  "unmarshalByType env doc v t =
     (let a = alloc v; (u, x) = indirect v
      in if u \<noteq> None
         then (let (x', r) = callUnmarshaler env doc x in (rebind a x', r))
         else case x of
                VNodes val \<Rightarrow> (rebind a (VNodes (val @ doc)), Ok ())
              | VStruct fs \<Rightarrow> (let (x', r) = unmarshalStruct env doc x in (rebind a x', r))
              | VSlice eleT vs \<Rightarrow> (let (x', r) = unmarshalSlice env doc x t in (rebind a x', r))
              | VArray eleT vs \<Rightarrow> (let (x', r) = unmarshalArray env doc x t in (rebind a x', r))
              | VMap k e \<Rightarrow>
                  (a, Failed (Frame (CannotUnmarshalError None [] FNil (RValue True (type_of x))
                        mapIsNotSupportedError (tag t))))
              | _ \<Rightarrow>
                  (let vf = valFunc t;
                       str = vf doc;
                       (x', err) = unmarshalLiteral env str x (required t)
                   in case err of
                        Some e \<Rightarrow>
                          (rebind a x',
                           Failed (Frame (CannotUnmarshalError (Some e) str FNil
                             (RValue True (type_of x)) typeConversionError (tag t))))
                      | None \<Rightarrow> (rebind a x', Ok ())))"
| "unmarshalStruct env doc v =
     (case v of
        VStruct fs \<Rightarrow>
          (let (fs', r) = structFields env doc (RValue True (type_of v)) fs in (VStruct fs', r))
      | _ \<Rightarrow> (v, Panic))"
| "structFields env doc sv [] = ([], Ok ())"
| "structFields env doc sv (f # rest) =
     (let (f', r) = structField env doc sv f
      in case r of
           Ok u \<Rightarrow> (let (rest', r') = structFields env doc sv rest in (f' # rest', r'))
         | _ \<Rightarrow> (f' # rest, r))"
| "structField env doc sv f =
     (case f of
        FVal name tg x \<Rightarrow>
          (let t = \<lparr>tag = Tag_Get tg tagName, required = True\<rparr>
           in if tag t = ignoreTag then (f, Ok ())
              else if tag t = [] \<and> fst (indirect x) = None
              then (FVal name tg (alloc x), Ok ())
              else if tag t = [] \<and> fst (indirect (alloc x)) = None
              then (FVal name tg (alloc (alloc x)), Ok ())
              else
                (let x1 = (if tag t = [] then alloc (alloc x) else x);
                     required' = Tag_Get tg requiredTag
                 in case (if required' \<noteq> [] then ParseBool env required'
                          else Inr (required t)) of
                      Inl err \<Rightarrow> (FVal name tg x1, Failed err)
                    | Inr b \<Rightarrow>
                        (let t = t\<lparr>required := b\<rparr>
                         in case findForTypeByTag env doc x1 t of
                              Failed err \<Rightarrow> (FVal name tg x1, Failed err)
                            | Panic \<Rightarrow> (FVal name tg x1, Panic)
                            | Ok sel \<Rightarrow>
                                (if \<not> required t \<and> IsEmpty sel then (FVal name tg x1, Ok ())
                                 else if IsEmpty sel
                                 then (FVal name tg x1,
                                       Failed (Frame (CannotUnmarshalError None [] FNil sv
                                         nodeNotFound (tag t))))
                                 else (let (x2, r) = unmarshalByType env sel x1 t
                                       in case r of
                                            Failed err \<Rightarrow>
                                              (FVal name tg x2,
                                               Failed (Frame (CannotUnmarshalError (Some err) []
                                                 (FString name) sv typeConversionError (tag t))))
                                          | _ \<Rightarrow> (FVal name tg x2, r)))))))"
| "unmarshalArray env doc v t =
     (case v of
        VArray eleT vs \<Rightarrow>
          (if length vs \<noteq> length doc
           then (v, Failed (Frame (CannotUnmarshalError None [] FNil (RValue True (type_of v))
                   arrayLengthMismatch (tag t))))
           else (let (vs', r) = arrayElems env doc (RValue True (type_of v)) t 0 vs
                 in (VArray eleT vs', r)))
      | _ \<Rightarrow> (v, Panic))"
| "arrayElems env doc av t i [] = ([], Ok ())"
| "arrayElems env doc av t i (x # rest) =
     (case Eq doc i of
        Ok d \<Rightarrow>
          (let (x', r) = unmarshalByType env d x t
           in case r of
                Ok u \<Rightarrow> (let (rest', r') = arrayElems env doc av t (i + 1) rest in (x' # rest', r'))
              | Failed err \<Rightarrow>
                  (x' # rest,
                   Failed (Frame (CannotUnmarshalError (Some err) [] (FInt i) av
                     typeConversionError (tag t))))
              | Panic \<Rightarrow> (x' # rest, Panic))
      | _ \<Rightarrow> (x # rest, Panic))"
| "unmarshalSlice env doc v t =
     (case v of
        VSlice eleT vs \<Rightarrow>
          (let slice = SetLen vs 0;
               (es, r) = sliceElems env doc eleT t 0 slice
           in case r of Ok u \<Rightarrow> (VSlice eleT es, Ok ()) | _ \<Rightarrow> (VSlice eleT slice, r))
      | _ \<Rightarrow> (v, Panic))"
| "sliceElems env doc eleT t i acc =
     (if i < Length doc
      then case Eq doc i of
             Ok d \<Rightarrow>
               (let newV = VPtr (TypeDeref eleT) (Some (zero (TypeDeref eleT)));
                    (newV', r) = unmarshalByType env d newV t
                in case r of
                     Failed err \<Rightarrow>
                       (acc, Failed (Frame (CannotUnmarshalError (Some err) [] (FInt i)
                          (RValue (i = 0) (TSlice eleT)) typeConversionError (tag t))))
                   | Panic \<Rightarrow> (acc, Panic)
                   | Ok u \<Rightarrow>
                       (case appendElem eleT newV' of
                          Ok e \<Rightarrow> sliceElems env doc eleT t (i + 1) (acc @ [e])
                        | _ \<Rightarrow> (acc, Panic)))
           | _ \<Rightarrow> (acc, Panic)
      else (acc, Ok ()))"
  by pat_completeness auto

termination
proof (relation "measures [call_size, call_rank, call_aux]", goal_cases)
  case (8 env doc sv f x1 x2 x3 x xa xb b xba x1a)
  have "vsize (alloc (alloc x3)) \<le> vsize x3"
    using vsize_alloc [of "alloc x3"] vsize_alloc [of x3] by simp
  with 8 show ?case by simp
next
  case 13
  then show ?case
    by (simp add: vsize_zero le_imp_less_Suc tsize_TypeDeref del: zero.simps)
qed (auto simp: Length_def vsize_field_pos dest: vsize_indirect [OF sym])


declare unmarshalByType.simps [simp del] unmarshalStruct.simps [simp del]
  structField.simps [simp del] unmarshalArray.simps [simp del]
  unmarshalSlice.simps [simp del] sliceElems.simps [simp del]


text \<open>
  The destination of \<open>UnmarshalSelection\<close> is an \<open>interface{}\<close>: nil (\<open>None\<close>) or a value.
  \<open>reflect.ValueOf\<close> of nil is the zero \<open>reflect.Value{}\<close>, whose kind is not \<open>Ptr\<close>; of a
  value, a \<open>reflect.Value\<close> that is not addressable.
\<close>

definition IsNil :: "gval \<Rightarrow> bool" where
  "IsNil v = (case v of VPtr t None \<Rightarrow> True | _ \<Rightarrow> False)"

definition UnmarshalSelection :: "env \<Rightarrow> document \<Rightarrow> gval option \<Rightarrow> gval option \<times> unit result"
  where
  "UnmarshalSelection env doc iface =
     (case iface of
        None \<Rightarrow>
          (iface, Failed (Frame (CannotUnmarshalError None [] FNil Invalid nonPointer [])))
      | Some v \<Rightarrow>
          (if Kind (type_of v) \<noteq> KPtr
           then (iface, Failed (Frame (CannotUnmarshalError None [] FNil
                   (RValue False (type_of v)) nonPointer [])))
           else if IsNil v
           then (iface, Failed (Frame (CannotUnmarshalError None [] FNil
                   (RValue False (type_of v)) nilDestination [])))
           else (let a = alloc v; (u, x) = indirect v
                 in if u \<noteq> None
                    then (let (x', r) = callUnmarshaler env doc x in (Some (rebind a x'), r))
                    else (let (x', r) = unmarshalByType env doc x \<lparr>tag = [], required = False\<rparr>
                          in (Some (rebind a x'), r)))))"

definition Unmarshal :: "env \<Rightarrow> string \<Rightarrow> gval option \<Rightarrow> gval option \<times> unit result" where
  "Unmarshal env bs v =
     (case html_Parse env bs of
        Inl err \<Rightarrow> (v, Failed err)
      | Inr root \<Rightarrow> UnmarshalSelection env (newDocumentWithNode root) v)"

section \<open>Rendering an error (unmarshal-error.go)\<close>

text \<open>
  \<open>errChain\<close>: the frames from the outermost to the innermost, the literal value and the
  tail. The tail is an error that is not a frame; the model keeps its message, which is all
  that \<open>tail.Error()\<close> reads.
\<close>

record errChain =
  chain :: "frame list"
  val :: string
  tail :: "string option"

text \<open>
  Of package \<open>fmt\<close>, the verb \<open>%q\<close> of a string (\<open>strconv.Quote\<close>) and the name of a type
  (\<open>reflect.Type.String\<close>) are parameters; \<open>%d\<close> is the decimal numeral of an integer.
\<close>

record fmt =
  Quote :: "string \<Rightarrow> string"
  TypeString :: "gtype \<Rightarrow> string"

fun decimal :: "nat \<Rightarrow> string" where
  "decimal n =
     (if n < 10 then [''0123456789'' ! n]
      else decimal (n div 10) @ [''0123456789'' ! (n mod 10)])"

declare decimal.simps [simp del]

definition Sprintf_d :: "int \<Rightarrow> string" where
  "Sprintf_d i = (if i < 0 then CHR ''-'' # decimal (nat (- i)) else decimal (nat i))"

text \<open>
  One turn of the loop of \<open>tPath\<close>: what a frame adds to the path. \<open>err.V.Type()\<close> panics on
  the zero \<open>reflect.Value{}\<close>.
\<close>

definition tPath_step :: "fmt \<Rightarrow> frame \<Rightarrow> string result" where
  "tPath_step fm err =
     (case FldOrIdx err of
        FNil \<Rightarrow> Ok []
      | FString nesting \<Rightarrow>
          (case V err of
             Invalid \<Rightarrow> Panic
           | RValue a ty \<Rightarrow>
               (if Kind ty = KMap then Ok (''['' @ Quote fm nesting @ '']'')
                else if Kind ty = KStruct then Ok (''.'' @ nesting)
                else Ok []))
      | FInt nesting \<Rightarrow> Ok (''['' @ Sprintf_d nesting @ '']'')
      | FIntPtr nesting \<Rightarrow> Ok (''['' @ Sprintf_d nesting @ '']'')
      | FOther nesting \<Rightarrow> Ok (''['' @ nesting @ '']''))"

fun tPath_loop :: "fmt \<Rightarrow> string \<Rightarrow> frame list \<Rightarrow> string result" where
  "tPath_loop fm nest [] = Ok nest"
| "tPath_loop fm nest (err # rest) =
     (case tPath_step fm err of
        Ok s \<Rightarrow> tPath_loop fm (nest @ s) rest
      | r \<Rightarrow> r)"

definition tPath :: "fmt \<Rightarrow> errChain \<Rightarrow> string result" where
  "tPath fm e = tPath_loop fm [] (chain e)"

text \<open>\<open>last\<close>: \<open>e.chain[len(e.chain)-1]\<close> panics on an empty chain.\<close>

definition last' :: "errChain \<Rightarrow> frame result" where
  "last' e = (case chain e of [] \<Rightarrow> Panic | _ \<Rightarrow> Ok (last (chain e)))"

definition errChain_Error :: "fmt \<Rightarrow> errChain \<Rightarrow> string result" where
  "errChain_Error fm e =
     (case last' e of
        Ok lst \<Rightarrow>
          (let t = (case V lst of
                      Invalid \<Rightarrow> ''unknown: invalid value''
                    | RValue a ty \<Rightarrow> TypeString fm ty);
               msg = ''could not unmarshal '';
               msg = (if val e \<noteq> [] then msg @ ''value '' @ Quote fm (val e) @ '' '' else msg)
           in case (case V (hd (chain e)) of
                      RValue True ty \<Rightarrow>
                        (case tPath fm e of
                           Ok p \<Rightarrow>
                             Ok (msg @ ''into '' @ [CHR 0x27] @ TypeString fm ty @ p @ [CHR 0x27]
                                  @ '' (type '' @ t @ ''): '' @ Reason lst)
                         | r \<Rightarrow> r)
                    | _ \<Rightarrow> Ok msg) of
                Ok msg \<Rightarrow>
                  (let msg = (if XPath lst \<noteq> []
                              then msg @ '' tag: '' @ [CHR 0x27] @ XPath lst @ [CHR 0x27]
                              else msg);
                       msg = (case tail e of Some m \<Rightarrow> msg @ '': '' @ m | None \<Rightarrow> msg)
                   in Ok msg)
              | r \<Rightarrow> r)
      | Failed err \<Rightarrow> Failed err
      | Panic \<Rightarrow> Panic)"

text \<open>
  \<open>unwind\<close>: the loop appends the frame to the chain, takes its literal value when it is not
  empty, and goes on with the cause while that is a frame.
\<close>

function unwind_loop :: "errChain \<Rightarrow> frame \<Rightarrow> errChain" where
  "unwind_loop str e =
     (let str = str\<lparr>chain := chain str @ [e]\<rparr>;
          str = (if Val e \<noteq> [] then str\<lparr>val := Val e\<rparr> else str)
      in case Err e of
           None \<Rightarrow> str
         | Some (Frame e2) \<Rightarrow> unwind_loop str e2
         | Some (ErrorString m) \<Rightarrow> str\<lparr>tail := Some m\<rparr>)"
  by pat_completeness auto

termination
proof (relation "measure (\<lambda>(str, e). size e)", goal_cases)
  case (2 str e x xa x2 x1)
  then show ?case by (cases e) simp
qed simp

declare unwind_loop.simps [simp del]

definition unwind :: "frame \<Rightarrow> errChain" where
  "unwind e = unwind_loop \<lparr>chain = [], val = [], tail = None\<rparr> e"

definition Error :: "fmt \<Rightarrow> frame \<Rightarrow> string result" where
  "Error fm e = errChain_Error fm (unwind e)"


section \<open>The error message, in the words of the specification\<close>

text \<open>
  The frames of a chain from the outermost one, following the causes while they are frames; the
  tail, the first cause that is not a frame; the deepest literal value that is not empty; the
  path, \<open>.Name\<close> for a hop to a record field and \<open>[i]\<close> for a hop to an index.
\<close>

function frames_of :: "frame \<Rightarrow> frame list" where
  "frames_of e = e # (case Err e of Some (Frame e2) \<Rightarrow> frames_of e2 | _ \<Rightarrow> [])"
  by pat_completeness auto

termination
proof (relation "measure size", goal_cases)
  case (2 e x2 x1)
  then show ?case by (cases e) simp
qed simp

declare frames_of.simps [simp del]

definition tail_of :: "frame \<Rightarrow> string option" where
  "tail_of e = (case Err (last (frames_of e)) of Some (ErrorString m) \<Rightarrow> Some m | _ \<Rightarrow> None)"

definition literal_of :: "frame \<Rightarrow> string" where
  "literal_of e =
     (let ls = filter (\<lambda>s. s \<noteq> []) (map Val (frames_of e))
      in if ls = [] then [] else last ls)"

definition hop_text :: "frame \<Rightarrow> string" where
  "hop_text f =
     (case FldOrIdx f of
        FString name \<Rightarrow> ''.'' @ name
      | FInt i \<Rightarrow> ''['' @ Sprintf_d i @ '']''
      | _ \<Rightarrow> [])"

definition path_of :: "frame \<Rightarrow> string" where
  "path_of e = concat (map hop_text (frames_of e))"

definition field_or_index_hop :: "frame \<Rightarrow> bool" where
  "field_or_index_hop f =
     (case FldOrIdx f of
        FNil \<Rightarrow> True
      | FInt i \<Rightarrow> True
      | FString name \<Rightarrow> (case V f of RValue a ty \<Rightarrow> Kind ty = KStruct | Invalid \<Rightarrow> False)
      | _ \<Rightarrow> False)"

definition type_name :: "fmt \<Rightarrow> rvalue \<Rightarrow> string" where
  "type_name fm v =
     (case v of Invalid \<Rightarrow> ''unknown: invalid value'' | RValue a ty \<Rightarrow> TypeString fm ty)"

definition message_head :: "fmt \<Rightarrow> frame \<Rightarrow> string" where
  "message_head fm e =
     ''could not unmarshal '' @
     (if literal_of e \<noteq> [] then ''value '' @ Quote fm (literal_of e) @ '' '' else [])"

definition message_into :: "fmt \<Rightarrow> frame \<Rightarrow> string" where
  "message_into fm e =
     ''into '' @ [CHR 0x27] @ type_name fm (V e) @ path_of e @ [CHR 0x27] @
     '' (type '' @ type_name fm (V (last (frames_of e))) @ ''): '' @ Reason (last (frames_of e))"

definition message_rest :: "frame \<Rightarrow> string" where
  "message_rest e =
     (if XPath (last (frames_of e)) \<noteq> []
      then '' tag: '' @ [CHR 0x27] @ XPath (last (frames_of e)) @ [CHR 0x27] else []) @
     (case tail_of e of Some m \<Rightarrow> '': '' @ m | None \<Rightarrow> [])"

text \<open>The message as the specification words it, the part \<open>into ...\<close> always there.\<close>

definition message_spec :: "fmt \<Rightarrow> frame \<Rightarrow> string" where
  "message_spec fm e = message_head fm e @ message_into fm e @ message_rest e"

text \<open>
  The message with the part \<open>into ...\<close> only for a chain whose first frame has an addressable
  value, which is what \<open>errChain.Error\<close> tests before it writes that part.
\<close>

definition message_amended :: "fmt \<Rightarrow> frame \<Rightarrow> string" where
  "message_amended fm e =
     message_head fm e @
     (case V e of RValue True ty \<Rightarrow> message_into fm e | _ \<Rightarrow> []) @
     message_rest e"


section \<open>An example environment\<close>

text \<open>
  The theorems below hold for every environment. To run the decoder on concrete inputs, here
  is one: a selector engine that knows \<open>.\<close>, \<open>./text()\<close>, \<open>./name\<close> and \<open>./name[k]\<close> with one
  digit \<open>k\<close>; \<open>strconv.ParseBool\<close> as Go has it; decimal integers; a custom type whose hook
  fails as the one of the tests does.
\<close>

definition quote_example :: "string \<Rightarrow> string" where
  "quote_example s = [CHR 0x22] @ s @ [CHR 0x22]"

definition fmt_example :: fmt where
  "fmt_example =
     \<lparr>Quote = quote_example,
      TypeString = (\<lambda>t. case t of TInt w \<Rightarrow> ''int'' | TString \<Rightarrow> ''string'' | _ \<Rightarrow> ''T'')\<rparr>"

definition syntax_error :: "string \<Rightarrow> string \<Rightarrow> error" where
  "syntax_error fn s =
     ErrorString (''strconv.'' @ fn @ '': parsing '' @ quote_example s @ '': invalid syntax'')"

definition ParseBool_example :: "string \<Rightarrow> error + bool" where
  "ParseBool_example s =
     (if s \<in> set [''1'', ''t'', ''T'', ''TRUE'', ''true'', ''True''] then Inr True
      else if s \<in> set [''0'', ''f'', ''F'', ''FALSE'', ''false'', ''False''] then Inr False
      else Inl (syntax_error ''ParseBool'' s))"

fun digits_value :: "nat \<Rightarrow> string \<Rightarrow> nat" where
  "digits_value acc [] = acc"
| "digits_value acc (c # cs) = digits_value (10 * acc + (of_char c - 48)) cs"

definition ParseUint_example :: "string \<Rightarrow> error + nat" where
  "ParseUint_example s =
     (if s = [] \<or> \<not> list_all isDigit s then Inl (syntax_error ''ParseUint'' s)
      else if digits_value 0 s < 2 ^ 64 then Inr (digits_value 0 s)
      else Inl (ErrorString ''value out of range''))"

definition ParseInt_example :: "string \<Rightarrow> error + int" where
  "ParseInt_example s =
     (let neg = (s \<noteq> [] \<and> hd s = CHR ''-'');
          ds = (if s \<noteq> [] \<and> (hd s = CHR ''-'' \<or> hd s = CHR ''+'') then tl s else s)
      in if ds = [] \<or> \<not> list_all isDigit ds then Inl (syntax_error ''ParseInt'' s)
         else if neg \<and> digits_value 0 ds \<le> 2 ^ 63 then Inr (- int (digits_value 0 ds))
         else if \<not> neg \<and> digits_value 0 ds < 2 ^ 63 then Inr (int (digits_value 0 ds))
         else Inl (ErrorString ''value out of range''))"

definition matches_example :: "node \<Rightarrow> string \<Rightarrow> node list" where
  "matches_example n sel =
     (if sel = ''.'' then [n]
      else if sel = ''./text()'' then filter (\<lambda>c. Type c = TextNode) (children n)
      else filter (\<lambda>c. Type c = ElementNode \<and> ''./'' @ Data c = sel) (children n))"

definition Find_example :: "node \<Rightarrow> string \<Rightarrow> node list" where
  "Find_example n sel =
     (let l = length sel
      in if 3 \<le> l \<and> sel ! (l - 3) = CHR ''['' \<and> isDigit (sel ! (l - 2)) \<and> sel ! (l - 1) = CHR '']''
         then take 1 (drop (of_char (sel ! (l - 2)) - 49) (matches_example n (take (l - 3) sel)))
         else matches_example n sel)"

text \<open>
  Modelled from the spec: \<open>Document.FindOne\<close> (its source is not among the files), the
  one-result form of the selector engine: the matches, and a failure if more than one match
  exists.
\<close>

definition FindOne_example :: "document \<Rightarrow> string \<Rightarrow> document result" where
  "FindOne_example doc sel =
     (case doc of
        [] \<Rightarrow> Panic
      | n # _ \<Rightarrow>
          (case Find_example n sel of
             [] \<Rightarrow> Ok []
           | [m] \<Rightarrow> Ok [m]
           | _ \<Rightarrow> Failed (ErrorString ''more than one node'')))"

definition errTestUnmarshal :: error where
  "errTestUnmarshal = ErrorString ''A wild error appeared''"

definition env_example :: env where
  "env_example =
     \<lparr>htmlquery_Find = Find_example,
      FindOne = FindOne_example,
      UnmarshalHTML = (\<lambda>name nodes v. (v, Some errTestUnmarshal)),
      ParseBool = ParseBool_example,
      ParseInt = ParseInt_example,
      ParseUint = ParseUint_example,
      ParseFloat = (\<lambda>s. if s = ''0'' then Inr 0 else Inl (syntax_error ''ParseFloat'' s)),
      float32 = (\<lambda>x. x),
      html_Parse = (\<lambda>bs. Inr (Node DocumentNode [] [] []))\<rparr>"

section \<open>The text of a Selection\<close>

lemma Text_text_spec: "Text doc = text_spec doc"
proof -
  have "concat (map Text_f ns) =
        concat (map Data (filter (\<lambda>m. Type m = TextNode) (concat (map document_order ns))))"
    for ns
    by (induction ns) (simp_all add: Text_f_document_order)
  then show ?thesis
    by (simp add: Text_def text_spec_def)
qed

text \<open>
  An element with the children \<open>1\<close>, \<open>span\<close> (holding \<open>2\<close>) and \<open>3\<close>, each text between
  line breaks and tabs as in the test page: the text of the element keeps all of the white space
  between the pieces, and the value extracted loses only the white space at its two ends.
\<close>

definition span_div :: node where
  "span_div =
     Node ElementNode ''div'' [(''class'', ''span'')]
       [Node TextNode [CHR 0x0A, CHR 0x09, CHR ''1'', CHR 0x0A, CHR 0x09] [] [],
        Node ElementNode ''span'' [] [Node TextNode [CHR 0x0A, CHR ''2'', CHR 0x0A] [] []],
        Node TextNode [CHR 0x0A, CHR 0x09, CHR ''3'', CHR 0x0A] [] []]"

lemma Text_span_div:
  "Text [span_div] =
     [CHR 0x0A, CHR 0x09, CHR ''1'', CHR 0x0A, CHR 0x09, CHR 0x0A, CHR ''2'', CHR 0x0A,
      CHR 0x0A, CHR 0x09, CHR ''3'', CHR 0x0A]"
  by (simp add: Text_def span_div_def)

lemma textVal_span_div:
  "textVal [span_div] =
     [CHR ''1'', CHR 0x0A, CHR 0x09, CHR 0x0A, CHR ''2'', CHR 0x0A, CHR 0x0A, CHR 0x09, CHR ''3'']"
  by (simp add: textVal_def TrimSpace_def isSpace_def Text_span_div)

text \<open>
  Claim C7. For every Selection, the text operation concatenates the raw character data of
  exactly the text nodes among the nodes of the Selection and their descendants, in document
  order, with nothing added, removed or trimmed in between; the white space is trimmed once, by
  \<open>textVal\<close> on the finished text, and not inside the traversal.
\<close>

theorem C7_text_in_document_order:
  "Text doc = concat (map Data (filter (\<lambda>n. Type n = TextNode) (concat (map document_order doc))))
   \<and> textVal doc = TrimSpace (Text doc)"
  using Text_text_spec [of doc] by (simp add: text_spec_def textVal_def)


section \<open>The error message\<close>

lemma last_filter: "filter P xs \<noteq> [] \<Longrightarrow> P (last (filter P xs))"
  using last_in_set [of "filter P xs"] by auto

lemma frames_of_not_Nil: "frames_of e \<noteq> []"
  by (subst frames_of.simps) simp

lemma hd_frames_of: "hd (frames_of e) = e"
  by (subst frames_of.simps) simp

lemma unwind_loop_frames:
  "unwind_loop str e =
     \<lparr>chain = chain str @ frames_of e,
      val = (if literal_of e \<noteq> [] then literal_of e else val str),
      tail = (case tail_of e of Some m \<Rightarrow> Some m | None \<Rightarrow> tail str)\<rparr>"
proof (induction str e rule: unwind_loop.induct)
  case (1 str e)
  show ?case
  proof (cases "Err e")
    case None
    then have fr: "frames_of e = [e]"
      by (subst frames_of.simps) simp
    show ?thesis
      using None by (subst unwind_loop.simps) (simp add: fr tail_of_def literal_of_def)
  next
    case (Some c)
    show ?thesis
    proof (cases c)
      case (ErrorString m)
      then have fr: "frames_of e = [e]"
        using Some by (subst frames_of.simps) simp
      show ?thesis
        using Some ErrorString
        by (subst unwind_loop.simps) (simp add: fr tail_of_def literal_of_def)
    next
      case (Frame e2)
      then have fr: "frames_of e = e # frames_of e2"
        using Some by (subst frames_of.simps) simp
      have lit: "literal_of e = (if literal_of e2 \<noteq> [] then literal_of e2 else Val e)"
        using last_filter [of "\<lambda>s. s \<noteq> []" "map Val (frames_of e2)"]
        by (simp add: literal_of_def fr Let_def)
      have tl: "tail_of e = tail_of e2"
        by (simp add: tail_of_def fr frames_of_not_Nil)
      show ?thesis
        using Some Frame 1(1) [OF refl refl Some Frame]
        apply (subst unwind_loop.simps)
        apply (simp add: fr lit tl Let_def split: option.splits)
        done
    qed
  qed
qed


lemma unwind_frames:
  "unwind e = \<lparr>chain = frames_of e, val = literal_of e, tail = tail_of e\<rparr>"
  by (simp add: unwind_def unwind_loop_frames split: option.splits)

lemma tPath_step_hop: "field_or_index_hop f \<Longrightarrow> tPath_step fm f = Ok (hop_text f)"
  by (auto simp: field_or_index_hop_def tPath_step_def hop_text_def
      split: fldOrIdx.splits rvalue.splits)

lemma tPath_loop_hops:
  "\<forall>f\<in>set fs. field_or_index_hop f \<Longrightarrow>
   tPath_loop fm nest fs = Ok (nest @ concat (map hop_text fs))"
  by (induction fs arbitrary: nest) (simp_all add: tPath_step_hop)

lemma Error_message_amended:
  assumes "\<forall>f\<in>set (frames_of e). field_or_index_hop f"
  shows "Error fm e = Ok (message_amended fm e)"
proof -
  define c where "c = \<lparr>chain = frames_of e, val = literal_of e, tail = tail_of e\<rparr>"
  have p: "tPath fm c = Ok (path_of e)"
    using tPath_loop_hops [OF assms, of fm "[]"]
    by (simp add: tPath_def c_def path_of_def)
  have l: "last' c = Ok (last (frames_of e))"
    using frames_of_not_Nil [of e]
    by (simp add: last'_def c_def split: list.splits)
  have sel: "chain c = frames_of e" "val c = literal_of e" "tail c = tail_of e"
    by (simp_all add: c_def)
  have "errChain_Error fm c = Ok (message_amended fm e)"
    unfolding errChain_Error_def l
    by (simp add: p sel hd_frames_of message_amended_def message_head_def
        message_into_def message_rest_def type_name_def Let_def
        split: rvalue.splits option.splits bool.splits)
  then show ?thesis
    by (simp add: Error_def unwind_frames c_def)
qed


text \<open>
  The chain of a required integer element that holds \<open>Foo\<close>: a record, its field
  \<open>Resources\<close>, the element at index 2.
\<close>

definition leaf_frame_example :: frame where
  "leaf_frame_example =
     CannotUnmarshalError (Some (syntax_error ''ParseInt'' ''Foo'')) ''Foo'' FNil
       (RValue True (TInt 64)) typeConversionError ''./li''"

definition chain_example :: frame where
  "chain_example =
     CannotUnmarshalError
       (Some (Frame (CannotUnmarshalError (Some (Frame leaf_frame_example)) [] (FInt 2)
          (RValue True (TArray 5 (TInt 64))) typeConversionError ''./li'')))
       [] (FString ''Resources'')
       (RValue True (TStruct [SField ''Resources'' [(''xpath'', ''./li'')] (TArray 5 (TInt 64))]))
       typeConversionError ''./li''"

text \<open>
  Claim C6, as amended. Unwinding a frame walks the causes while the cause is a frame, stops
  at the first cause that is not one and keeps it as the tail, and captures the deepest literal
  value that is not empty. For a chain whose hops are to record fields and to indexes, the
  message is \<open>could not unmarshal\<close>, then the quoted literal if one was captured, then, only
  if the value of the first frame is addressable, \<open>into '<TypeName><path>' (type
  <leafType>): <reason>\<close>, then the selector of the leaf if it has one, then the message of the
  tail if there is one; the path is built from the root to the leaf, \<open>.Name\<close> for a record
  field and \<open>[i]\<close> for an index.
\<close>

theorem C6_unwind_and_message:
  "unwind e = \<lparr>chain = frames_of e, val = literal_of e, tail = tail_of e\<rparr> \<and>
   ((\<forall>f\<in>set (frames_of e). field_or_index_hop f) \<longrightarrow>
    Error fm e = Ok (message_amended fm e))"
  using unwind_frames [of e] Error_message_amended [of e fm] by blast

lemma frames_of_chain_example:
  "frames_of chain_example =
     [chain_example,
      CannotUnmarshalError (Some (Frame leaf_frame_example)) [] (FInt 2)
        (RValue True (TArray 5 (TInt 64))) typeConversionError ''./li'',
      leaf_frame_example]"
  by (simp add: frames_of.simps chain_example_def leaf_frame_example_def syntax_error_def)

text \<open>The theorem at the chain of the example, whose hops are a field and an index.\<close>

theorem C6_unwind_and_message_witness:
  "val (unwind chain_example) = ''Foo'' \<and>
   tail (unwind chain_example) =
     Some (''strconv.ParseInt: parsing '' @ quote_example ''Foo'' @ '': invalid syntax'') \<and>
   Error fmt_example chain_example =
     Ok (''could not unmarshal value '' @ quote_example ''Foo'' @ '' into '' @ [CHR 0x27] @
         ''T.Resources[2]'' @ [CHR 0x27] @
         '' (type int): a type conversion error occurred tag: '' @ [CHR 0x27] @ ''./li'' @
         [CHR 0x27] @ '': strconv.ParseInt: parsing '' @ quote_example ''Foo'' @
         '': invalid syntax'')"
proof -
  have hops: "\<forall>f\<in>set (frames_of chain_example). field_or_index_hop f"
    unfolding frames_of_chain_example
    by (simp add: field_or_index_hop_def chain_example_def leaf_frame_example_def)
  have u: "unwind chain_example =
      \<lparr>chain = frames_of chain_example, val = literal_of chain_example,
       tail = tail_of chain_example\<rparr>"
    and m: "Error fmt_example chain_example = Ok (message_amended fmt_example chain_example)"
    using C6_unwind_and_message [of chain_example fmt_example] hops by blast+
  have lit: "literal_of chain_example = ''Foo''"
    unfolding literal_of_def frames_of_chain_example
    by (simp add: chain_example_def leaf_frame_example_def)
  have tl: "tail_of chain_example =
      Some (''strconv.ParseInt: parsing '' @ quote_example ''Foo'' @ '': invalid syntax'')"
    unfolding tail_of_def frames_of_chain_example
    by (simp add: leaf_frame_example_def syntax_error_def)
  have pth: "path_of chain_example = ''.Resources[2]''"
    unfolding path_of_def frames_of_chain_example
    by (simp add: hop_text_def chain_example_def leaf_frame_example_def Sprintf_d_def
        decimal.simps)
  have msg: "message_amended fmt_example chain_example =
      ''could not unmarshal value '' @ quote_example ''Foo'' @ '' into '' @ [CHR 0x27] @
      ''T.Resources[2]'' @ [CHR 0x27] @
      '' (type int): a type conversion error occurred tag: '' @ [CHR 0x27] @ ''./li'' @
      [CHR 0x27] @ '': strconv.ParseInt: parsing '' @ quote_example ''Foo'' @
      '': invalid syntax''"
    unfolding message_amended_def message_head_def message_into_def message_rest_def lit tl pth
      frames_of_chain_example
    by (simp add: type_name_def fmt_example_def chain_example_def leaf_frame_example_def
        typeConversionError_def)
  show ?thesis
    unfolding u m msg by (simp add: lit tl)
qed

text \<open>
  The claim as the specification words it fails on the frame that \<open>UnmarshalSelection\<close>
  returns for a destination that is not a pointer: its value is not addressable, and the message
  stops after \<open>could not unmarshal\<close>.
\<close>

definition nonPointer_frame_example :: frame where
  "nonPointer_frame_example =
     CannotUnmarshalError None [] FNil (RValue False TString) nonPointer []"

theorem C6_message_counterexample:
  "snd (UnmarshalSelection env_example [] (Some (VString ''abc''))) =
     Failed (Frame nonPointer_frame_example) \<and>
   Error fmt_example nonPointer_frame_example = Ok ''could not unmarshal '' \<and>
   message_spec fmt_example nonPointer_frame_example =
     ''could not unmarshal into '' @ [CHR 0x27] @ ''string'' @ [CHR 0x27] @
     '' (type string): non-pointer value'' \<and>
   Error fmt_example nonPointer_frame_example \<noteq>
     Ok (message_spec fmt_example nonPointer_frame_example)"
  by (simp add: UnmarshalSelection_def nonPointer_frame_example_def Error_def unwind_def
      unwind_loop.simps errChain_Error_def last'_def tPath_def frames_of.simps
      message_spec_def message_head_def message_into_def message_rest_def literal_of_def
      tail_of_def path_of_def hop_text_def type_name_def fmt_example_def nonPointer_def)


section \<open>Running the decoder on the example\<close>

lemmas decoder_simps =
  unmarshalByType.simps unmarshalStruct.simps structField.simps unmarshalArray.simps
  unmarshalSlice.simps sliceElems.simps unmarshalLiteral_def findForTypeByTag_def
  findByTag_def findOneByTag_def Find_def Eq_def Slice_def IsEmpty_def Length_def
  indirect_def callUnmarshaler_def wrapUnmErr_def valFunc_def textVal_def Text_def
  TrimSpace_def isSpace_def hasIndex_def hasSuffix_def HasSuffix_def
  indexRegEx_MatchString_def isDigit_def Tag_Get_def tagName_def ignoreTag_def
  requiredTag_def newDocumentWithNodes_def newDocumentWithNode_def appendElem_def Elem_def
  SetLen_def
  SetInt_def SetUint_def SetFloat_def Let_def

lemma env_example_simps:
  "htmlquery_Find env_example = Find_example"
  "FindOne env_example = FindOne_example"
  "UnmarshalHTML env_example = (\<lambda>name nodes v. (v, Some errTestUnmarshal))"
  "ParseBool env_example = ParseBool_example"
  "ParseInt env_example = ParseInt_example"
  "ParseUint env_example = ParseUint_example"
  "ParseFloat env_example = (\<lambda>s. if s = ''0'' then Inr 0 else Inl (syntax_error ''ParseFloat'' s))"
  "float32 env_example = (\<lambda>x. x)"
  "html_Parse env_example = (\<lambda>bs. Inr (Node DocumentNode [] [] []))"
  by (simp_all add: env_example_def)

lemmas example_simps =
  env_example_simps Find_example_def matches_example_def FindOne_example_def
  ParseBool_example_def ParseInt_example_def ParseUint_example_def syntax_error_def
  quote_example_def errTestUnmarshal_def

text \<open>
  A small page: a root element with a child \<open>a\<close>, two children \<open>li\<close> and a child \<open>flag\<close>.
\<close>

definition root_example :: node where
  "root_example =
     Node ElementNode ''root'' []
       [Node ElementNode ''a'' [] [Node TextNode ''hi'' [] []],
        Node ElementNode ''li'' [] [Node TextNode '' 3 '' [] []],
        Node ElementNode ''li'' [] [Node TextNode ''1'' [] []],
        Node ElementNode ''flag'' [] [Node TextNode ''maybe'' [] []]]"

definition fieldA :: fval where
  "fieldA = FVal ''A'' [(''xpath'', ''./a'')] (VString [])"

definition fieldB :: fval where
  "fieldB = FVal ''B'' [(''xpath'', ''./li''), (''xpath_required'', ''maybe'')] (VSlice (TInt 64) [])"

definition fieldA_hi :: fval where
  "fieldA_hi = FVal ''A'' [(''xpath'', ''./a'')] (VString ''hi'')"

definition fieldN :: "bool \<Rightarrow> fval" where
  "fieldN optional =
     FVal ''N'' ((''xpath'', ''./none'') # (if optional then [(''xpath_required'', ''false'')] else []))
       (VInt 64 0)"

lemma structField_fieldA:
  "structField env_example [root_example] sv fieldA = (fieldA_hi, Ok ())"
  by (simp add: decoder_simps example_simps root_example_def fieldA_def fieldA_hi_def)

lemma structFields_fieldA:
  "structFields env_example [root_example] sv [fieldA] = ([fieldA_hi], Ok ())"
  by (simp add: structField_fieldA)


section \<open>The entry points\<close>





section \<open>Records\<close>

lemma structFields_append:
  "structFields env doc sv (pre @ rest) =
     (case structFields env doc sv pre of
        (pre', Ok u) \<Rightarrow>
          (case structFields env doc sv rest of (rest', r) \<Rightarrow> (pre' @ rest', r))
      | (pre', r) \<Rightarrow> (pre' @ rest, r))"
  by (induction pre) (auto split: prod.splits result.splits)


lemma alloc_new_chain: "alloc (new_chain t) = new_chain t"
  by (induction t rule: new_chain.induct) simp_all

lemma alloc_idem: "alloc (alloc v) = alloc v"
  by (induction v rule: alloc.induct) (simp_all add: alloc_new_chain)

lemma indirect_alloc: "indirect (alloc v) = indirect v"
  by (simp add: indirect_def alloc_idem)

lemma unmarshalStruct_fields:
  "unmarshalStruct env doc (VStruct fs) =
     (case structFields env doc (RValue True (type_of (VStruct fs))) fs of
        (fs', r) \<Rightarrow> (VStruct fs', r))"
  by (simp add: unmarshalStruct.simps)

lemma structFields_reach:
  assumes "structFields env doc sv pre = (pre', Ok ())"
  shows "structFields env doc sv (pre @ f # post) =
     (case structField env doc sv f of
        (f', Ok u) \<Rightarrow>
          (case structFields env doc sv post of (post', r) \<Rightarrow> (pre' @ f' # post', r))
      | (f', r) \<Rightarrow> (pre' @ f' # post, r))"
  using assms by (simp add: structFields_append split: prod.splits result.splits)

lemma structField_required_override:
  assumes "Tag_Get tg requiredTag \<noteq> []"
    and "ParseBool env (Tag_Get tg requiredTag) = Inl err"
    and "Tag_Get tg tagName \<noteq> ignoreTag"
    and "Tag_Get tg tagName \<noteq> [] \<or> fst (indirect x) \<noteq> None"
  shows "structField env doc sv (FVal name tg x) =
     (FVal name tg (if Tag_Get tg tagName = [] then alloc x else x), Failed err)"
  using assms by (auto simp: structField.simps Let_def indirect_alloc alloc_idem)

text \<open>
  Claim C8, as amended. For every record field that the loop does not skip (its selector is
  not the ignore marker and, if it is empty, the field is custom-decodable) and that decoding
  reaches (the fields before it decode without an error): if the field carries a
  required-override annotation whose value is not a valid boolean literal, decoding of the
  record fails there, before any selector is resolved for the field and with the fields after it
  untouched, and the error returned is the boolean-parse error itself, not wrapped in a frame.
\<close>

theorem C8_required_override:
  assumes "fs = pre @ FVal name tg x # post"
    and "structFields env doc (RValue True (type_of (VStruct fs))) pre = (pre', Ok ())"
    and "Tag_Get tg tagName \<noteq> ignoreTag"
    and "Tag_Get tg tagName \<noteq> [] \<or> fst (indirect x) \<noteq> None"
    and "Tag_Get tg requiredTag \<noteq> []"
    and "ParseBool env (Tag_Get tg requiredTag) = Inl err"
  shows "unmarshalStruct env doc (VStruct fs) =
     (VStruct (pre' @ FVal name tg (if Tag_Get tg tagName = [] then alloc x else x) # post),
      Failed err)"
  unfolding unmarshalStruct_fields
  using assms(1) structFields_reach [OF assms(2), of "FVal name tg x" post]
    structField_required_override [OF assms(5,6,3,4), of doc "RValue True (type_of (VStruct fs))" name]
  by simp


text \<open>The theorem at a record whose second field has the override \<open>maybe\<close>.\<close>

theorem C8_required_override_witness:
  "unmarshalStruct env_example [root_example] (VStruct [fieldA, fieldB, fieldA]) =
     (VStruct [FVal ''A'' [(''xpath'', ''./a'')] (VString ''hi''), fieldB, fieldA],
      Failed (syntax_error ''ParseBool'' ''maybe''))"
proof -
  have reach: "structFields env_example [root_example]
      (RValue True (type_of (VStruct ([fieldA] @ fieldB # [fieldA])))) [fieldA] =
      ([FVal ''A'' [(''xpath'', ''./a'')] (VString ''hi'')], Ok ())"
    by (simp add: decoder_simps example_simps root_example_def fieldA_def)
  show ?thesis
    using C8_required_override [OF refl reach [unfolded fieldB_def], of
        "syntax_error ''ParseBool'' ''maybe''"]
    by (simp add: fieldB_def Tag_Get_def tagName_def ignoreTag_def requiredTag_def
        env_example_simps ParseBool_example_def)
qed

text \<open>
  The claim as the specification words it, for every field that carries such an annotation,
  fails at an ignored field: the loop skips it before it reads the annotation.
\<close>

theorem C8_ignored_field_counterexample:
  "ParseBool env_example ''maybe'' = Inl (syntax_error ''ParseBool'' ''maybe'') \<and>
   unmarshalStruct env_example [root_example]
     (VStruct [FVal ''Ignored'' [(''xpath'', ''-''), (''xpath_required'', ''maybe'')] (VString [])]) =
     (VStruct [FVal ''Ignored'' [(''xpath'', ''-''), (''xpath_required'', ''maybe'')] (VString [])],
      Ok ())"
  by (simp add: decoder_simps example_simps)


lemma findForTypeByTag_empty:
  assumes "tag t \<noteq> []"
    and "(if hasIndex t \<and> \<not> hasSuffix t ''text()'' then FindOne env doc (tag t)
          else Find env doc (tag t)) = Ok []"
  shows "findForTypeByTag env doc x t = Ok []"
  using assms
  by (auto simp: findForTypeByTag_def findByTag_def findOneByTag_def Let_def Length_def
      split: if_splits)

lemma structField_tagged:
  assumes "Tag_Get tg tagName \<noteq> ignoreTag" and "Tag_Get tg tagName \<noteq> []"
    and "(Tag_Get tg requiredTag = [] \<and> b) \<or>
         (Tag_Get tg requiredTag \<noteq> [] \<and> ParseBool env (Tag_Get tg requiredTag) = Inr b)"
  shows "structField env doc sv (FVal name tg x) =
     (case findForTypeByTag env doc x \<lparr>tag = Tag_Get tg tagName, required = b\<rparr> of
        Failed err \<Rightarrow> (FVal name tg x, Failed err)
      | Panic \<Rightarrow> (FVal name tg x, Panic)
      | Ok sel \<Rightarrow>
          (if \<not> b \<and> IsEmpty sel then (FVal name tg x, Ok ())
           else if IsEmpty sel
           then (FVal name tg x,
                 Failed (Frame (CannotUnmarshalError None [] FNil sv nodeNotFound
                   (Tag_Get tg tagName))))
           else (case unmarshalByType env sel x \<lparr>tag = Tag_Get tg tagName, required = b\<rparr> of
                   (x2, Failed err) \<Rightarrow>
                     (FVal name tg x2,
                      Failed (Frame (CannotUnmarshalError (Some err) [] (FString name) sv
                        typeConversionError (Tag_Get tg tagName))))
                 | (x2, r) \<Rightarrow> (FVal name tg x2, r))))"
proof -
  have r: "(if Tag_Get tg requiredTag \<noteq> [] then ParseBool env (Tag_Get tg requiredTag)
            else Inr (required \<lparr>tag = Tag_Get tg tagName, required = True\<rparr>)) = Inr b"
    using assms(3) by auto
  show ?thesis
    unfolding structField.simps Let_def fval.case r
    using assms(1,2) by (simp split: result.splits prod.splits)
qed

text \<open>
  Claim C1. For every record field that has a selector (not empty, not the ignore marker),
  whose required flag is \<open>b\<close> (true when there is no override, else what the override parses
  to) and whose selector matches no nodes in the current Selection (the form of the engine
  that the decoder uses for this selector returns the empty Selection), when decoding reaches
  the field: if \<open>b\<close> is false the field is skipped, left as it was, with no error for it (the
  result is that of the fields after it); if \<open>b\<close> is true, decoding fails with the reason
  NodeNotFound in a frame that carries the selector, the fields after it untouched.
\<close>

theorem C1_selector_matches_nothing:
  assumes "fs = pre @ FVal name tg x # post"
    and "sv = RValue True (type_of (VStruct fs))"
    and "structFields env doc sv pre = (pre', Ok ())"
    and "selector = Tag_Get tg tagName"
    and "selector \<noteq> []" and "selector \<noteq> ignoreTag"
    and "(Tag_Get tg requiredTag = [] \<and> b) \<or>
         (Tag_Get tg requiredTag \<noteq> [] \<and> ParseBool env (Tag_Get tg requiredTag) = Inr b)"
    and "(if hasIndex \<lparr>tag = selector, required = b\<rparr> \<and>
             \<not> hasSuffix \<lparr>tag = selector, required = b\<rparr> ''text()''
          then FindOne env doc selector else Find env doc selector) = Ok []"
  shows "unmarshalStruct env doc (VStruct fs) =
     (if b
      then (VStruct (pre' @ FVal name tg x # post),
            Failed (Frame (CannotUnmarshalError None [] FNil sv nodeNotFound selector)))
      else (case structFields env doc sv post of
              (post', r) \<Rightarrow> (VStruct (pre' @ FVal name tg x # post'), r)))"
proof -
  have f: "findForTypeByTag env doc x \<lparr>tag = selector, required = b\<rparr> = Ok []"
    by (rule findForTypeByTag_empty) (use assms(5,8) in \<open>auto split: if_splits\<close>)
  have "structField env doc sv (FVal name tg x) =
      (if b then (FVal name tg x,
                  Failed (Frame (CannotUnmarshalError None [] FNil sv nodeNotFound selector)))
       else (FVal name tg x, Ok ()))"
    using structField_tagged [OF assms(6,5,7) [unfolded assms(4)], of doc sv name x] f
    by (simp add: assms(4) IsEmpty_def)
  then show ?thesis
    unfolding unmarshalStruct_fields assms(1)
    using structFields_reach [OF assms(3), of "FVal name tg x" post] assms(1,2)
    by (simp split: prod.splits)
qed

text \<open>The theorem at a field whose selector matches nothing, optional and required.\<close>

theorem C1_selector_matches_nothing_witness:
  "unmarshalStruct env_example [root_example] (VStruct [fieldA, fieldN True, fieldA]) =
     (VStruct [fieldA_hi, fieldN True, fieldA_hi], Ok ()) \<and>
   unmarshalStruct env_example [root_example] (VStruct [fieldA, fieldN False, fieldA]) =
     (VStruct [fieldA_hi, fieldN False, fieldA],
      Failed (Frame (CannotUnmarshalError None [] FNil
        (RValue True (type_of (VStruct [fieldA, fieldN False, fieldA]))) nodeNotFound ''./none'')))"
proof -
  have e: "Find env_example [root_example] ''./none'' = Ok []"
    by (simp add: decoder_simps example_simps root_example_def)
  have i: "\<not> hasIndex \<lparr>tag = ''./none'', required = b\<rparr>" for b
    by (simp add: decoder_simps)
  have a: "unmarshalStruct env_example [root_example] (VStruct ([fieldA] @ fieldN True # [fieldA])) =
      (VStruct [fieldA_hi, fieldN True, fieldA_hi], Ok ())"
    using C1_selector_matches_nothing [OF refl refl structFields_fieldA,
        of "''./none''" "[(''xpath'', ''./none''), (''xpath_required'', ''false'')]" False
        "''N''" "VInt 64 0" "[fieldA]"]
    by (simp add: e i fieldN_def Tag_Get_def tagName_def requiredTag_def ignoreTag_def
        env_example_simps ParseBool_example_def structField_fieldA)
  have b: "unmarshalStruct env_example [root_example] (VStruct ([fieldA] @ fieldN False # [fieldA])) =
      (VStruct [fieldA_hi, fieldN False, fieldA],
       Failed (Frame (CannotUnmarshalError None [] FNil
         (RValue True (type_of (VStruct [fieldA, fieldN False, fieldA]))) nodeNotFound ''./none'')))"
    using C1_selector_matches_nothing [OF refl refl structFields_fieldA,
        of "''./none''" "[(''xpath'', ''./none'')]" True "''N''" "VInt 64 0" "[fieldA]"]
    by (simp add: e i fieldN_def Tag_Get_def tagName_def requiredTag_def ignoreTag_def)
  show ?thesis using a b by simp
qed






section \<open>Selectors with an index or a \<open>text()\<close> suffix\<close>

text \<open>
  \<open>indexRegEx_MatchString\<close> is the match of \<open>\[\d+\]$\<close>: the string ends with an opening
  bracket, one or more decimal digits and a closing bracket.
\<close>

lemma not_isDigit_bracket: "\<not> isDigit CHR ''[''"
  by (simp add: isDigit_def)

lemma indexRegEx_MatchString_iff:
  "indexRegEx_MatchString s \<longleftrightarrow>
     (\<exists>p ds. s = p @ ''['' @ ds @ '']'' \<and> ds \<noteq> [] \<and> list_all isDigit ds)"
proof
  assume m: "indexRegEx_MatchString s"
  then obtain r where r: "rev s = CHR '']'' # r"
    by (auto simp: indexRegEx_MatchString_def split: list.splits)
  from m r obtain rest where d: "dropWhile isDigit r = CHR ''['' # rest"
    and t: "takeWhile isDigit r \<noteq> []"
    by (auto simp: indexRegEx_MatchString_def split: list.splits)
  have "r = takeWhile isDigit r @ CHR ''['' # rest"
    using takeWhile_dropWhile_id [of isDigit r] d by simp
  then have "rev (rev s) = rev (CHR '']'' # takeWhile isDigit r @ CHR ''['' # rest)"
    using r by simp
  then have "s = rev rest @ ''['' @ rev (takeWhile isDigit r) @ '']''"
    by simp
  moreover have "list_all isDigit (rev (takeWhile isDigit r))"
    by (simp add: list_all_iff) (meson set_takeWhileD)
  ultimately show "\<exists>p ds. s = p @ ''['' @ ds @ '']'' \<and> ds \<noteq> [] \<and> list_all isDigit ds"
    using t by (metis rev_is_Nil_conv)
next
  assume "\<exists>p ds. s = p @ ''['' @ ds @ '']'' \<and> ds \<noteq> [] \<and> list_all isDigit ds"
  then obtain p ds where s: "s = p @ ''['' @ ds @ '']''" and ds: "ds \<noteq> []"
    and dg: "list_all isDigit ds"
    by blast
  have r: "rev s = CHR '']'' # rev ds @ CHR ''['' # rev p"
    by (simp add: s)
  have "takeWhile isDigit (rev ds @ CHR ''['' # rev p) =
      rev ds @ takeWhile isDigit (CHR ''['' # rev p)"
    by (rule takeWhile_append2) (use dg in \<open>simp add: list_all_iff\<close>)
  then have tw: "takeWhile isDigit (rev ds @ CHR ''['' # rev p) = rev ds"
    by (simp add: not_isDigit_bracket)
  have "dropWhile isDigit (rev ds @ CHR ''['' # rev p) =
      dropWhile isDigit (CHR ''['' # rev p)"
    by (rule dropWhile_append2) (use dg in \<open>simp add: list_all_iff\<close>)
  then have dw: "dropWhile isDigit (rev ds @ CHR ''['' # rev p) = CHR ''['' # rev p"
    by (simp add: not_isDigit_bracket)
  show "indexRegEx_MatchString s"
    by (simp add: indexRegEx_MatchString_def r tw dw ds)
qed

lemma hasIndex_last: "hasIndex t \<Longrightarrow> tag t \<noteq> [] \<and> last (tag t) = CHR '']''"
  by (auto simp: hasIndex_def indexRegEx_MatchString_iff)

lemma HasSuffix_last:
  "HasSuffix s suffix \<Longrightarrow> suffix \<noteq> [] \<Longrightarrow> s \<noteq> [] \<and> last s = last suffix"
proof -
  assume a: "HasSuffix s suffix" and b: "suffix \<noteq> []"
  then have "s = take (length s - length suffix) s @ suffix"
    by (metis HasSuffix_def append_take_drop_id)
  then show ?thesis
    using b by (metis Nil_is_append_conv last_appendR)
qed

lemma hasIndex_not_text: "hasIndex t \<Longrightarrow> \<not> hasSuffix t ''text()''"
  using hasIndex_last [of t] HasSuffix_last [of "tag t" "''text()''"]
  by (auto simp: hasSuffix_def)

lemma hasSuffix_text_tag: "hasSuffix t ''text()'' \<Longrightarrow> tag t \<noteq> []"
  by (auto simp: hasSuffix_def HasSuffix_def)

lemma unmarshalByType_string:
  "unmarshalByType env sel (VString s0) t = (VString (TrimSpace (Text sel)), Ok ())"
  by (simp add: unmarshalByType.simps indirect_def unmarshalLiteral_def valFunc_def
      textVal_def Let_def)

text \<open>
  Claim C9. For every scalar record field (bool, int, uint, float or string): if its selector
  ends in a bracketed numeric index, the selector is resolved through the single-match form
  \<open>FindOne\<close> and the result of that, whatever it is, is the result of the resolution, so the
  check of more than one match that produces MultipleNodesDetected is not made; if its selector
  ends with \<open>text()\<close>, the result of the resolution is that of \<open>Find\<close>, never a failure
  however many nodes match, all the matched nodes are kept in the Selection, and a string field
  decoded from it holds the trimmed concatenation of their texts.
\<close>

theorem C9_index_and_text_suffix:
  assumes "Kind (type_of v) \<in> {KBool, KInt, KUint, KFloat, KString}"
  shows "(hasIndex t \<longrightarrow> findForTypeByTag env doc v t = FindOne env doc (tag t)) \<and>
     (hasSuffix t ''text()'' \<longrightarrow>
        findForTypeByTag env doc v t = Find env doc (tag t) \<and>
        (\<forall>e. findForTypeByTag env doc v t \<noteq> Failed e) \<and>
        (\<forall>sel s0. findForTypeByTag env doc v t = Ok sel \<longrightarrow>
           unmarshalByType env sel (VString s0) t =
             (VString (TrimSpace (concat (map Text_f sel))), Ok ())))"
proof (intro conjI impI)
  assume i: "hasIndex t"
  show "findForTypeByTag env doc v t = FindOne env doc (tag t)"
    using assms i hasIndex_not_text [OF i] hasIndex_last [OF i]
    by (auto simp: findForTypeByTag_def findOneByTag_def Let_def split: result.splits)
next
  assume x: "hasSuffix t ''text()''"
  then have ni: "\<not> hasIndex t"
    using hasIndex_not_text by blast
  show f: "findForTypeByTag env doc v t = Find env doc (tag t)"
    using assms x ni hasSuffix_text_tag [OF x]
    by (auto simp: findForTypeByTag_def findByTag_def Let_def split: result.splits)
  show "\<forall>e. findForTypeByTag env doc v t \<noteq> Failed e"
    unfolding f by (simp add: Find_def split: list.splits)
  show "\<forall>sel s0. findForTypeByTag env doc v t = Ok sel \<longrightarrow>
      unmarshalByType env sel (VString s0) t =
        (VString (TrimSpace (concat (map Text_f sel))), Ok ())"
    by (simp add: unmarshalByType_string Text_def)
qed


text \<open>
  The theorem at the selector \<open>./li[2]\<close> on the example page and at \<open>./text()\<close> on the
  element of claim C7, whose two text children are both kept.
\<close>

definition li2_tag :: xpathTag where
  "li2_tag = \<lparr>tag = ''./li[2]'', required = True\<rparr>"

definition text_tag :: xpathTag where
  "text_tag = \<lparr>tag = ''./text()'', required = True\<rparr>"

theorem C9_index_and_text_suffix_witness:
  "findForTypeByTag env_example [root_example] (VInt 64 0) li2_tag =
     Ok [Node ElementNode ''li'' [] [Node TextNode ''1'' [] []]] \<and>
   findForTypeByTag env_example [span_div] (VString []) text_tag =
     Ok [Node TextNode [CHR 0x0A, CHR 0x09, CHR ''1'', CHR 0x0A, CHR 0x09] [] [],
         Node TextNode [CHR 0x0A, CHR 0x09, CHR ''3'', CHR 0x0A] [] []] \<and>
   unmarshalByType env_example
     [Node TextNode [CHR 0x0A, CHR 0x09, CHR ''1'', CHR 0x0A, CHR 0x09] [] [],
      Node TextNode [CHR 0x0A, CHR 0x09, CHR ''3'', CHR 0x0A] [] []] (VString []) text_tag =
     (VString [CHR ''1'', CHR 0x0A, CHR 0x09, CHR 0x0A, CHR 0x09, CHR ''3''], Ok ())"
proof -
  have i: "hasIndex li2_tag"
    by (simp add: li2_tag_def hasIndex_def indexRegEx_MatchString_def isDigit_def)
  have x: "hasSuffix text_tag ''text()''"
    by (simp add: text_tag_def hasSuffix_def HasSuffix_def)
  have one: "FindOne env_example [root_example] (tag li2_tag) =
      Ok [Node ElementNode ''li'' [] [Node TextNode ''1'' [] []]]"
    by (simp add: li2_tag_def example_simps root_example_def isDigit_def Let_def)
  have all: "Find env_example [span_div] (tag text_tag) =
      Ok [Node TextNode [CHR 0x0A, CHR 0x09, CHR ''1'', CHR 0x0A, CHR 0x09] [] [],
          Node TextNode [CHR 0x0A, CHR 0x09, CHR ''3'', CHR 0x0A] [] []]"
    by (simp add: text_tag_def Find_def newDocumentWithNodes_def example_simps span_div_def
        isDigit_def Let_def)
  have a: "findForTypeByTag env_example [root_example] (VInt 64 0) li2_tag =
      FindOne env_example [root_example] (tag li2_tag)"
    using C9_index_and_text_suffix [of "VInt 64 0" li2_tag env_example "[root_example]"] i
    by simp
  have b: "findForTypeByTag env_example [span_div] (VString []) text_tag =
      Find env_example [span_div] (tag text_tag)"
    and c: "\<forall>sel s0. findForTypeByTag env_example [span_div] (VString []) text_tag = Ok sel \<longrightarrow>
      unmarshalByType env_example sel (VString s0) text_tag =
        (VString (TrimSpace (concat (map Text_f sel))), Ok ())"
    using C9_index_and_text_suffix [of "VString []" text_tag env_example "[span_div]"] x
    by simp_all
  show ?thesis
    using c [rule_format, OF b [unfolded all], of "[]"]
    by (simp add: a b one all TrimSpace_def isSpace_def)
qed


section \<open>Arrays and slices\<close>

lemma Slice_one:
  assumes "i < length doc" and "int (length doc) \<le> maxInt"
  shows "Slice doc (int i) (int i + 1) = Ok [doc ! i]"
proof -
  have e: "(if int i + 1 = maxInt then int (length doc)
            else if int i + 1 < 0 then int i + 1 + int (length doc) else int i + 1) = int i + 1"
    using assms by auto
  have t: "take (Suc 0) (drop i doc) = [doc ! i]"
    using assms(1) by (simp add: take_Suc_conv_app_nth)
  show ?thesis
    unfolding Slice_def Let_def e
    using assms(1) t by (simp add: newDocumentWithNodes_def)
qed

lemma Eq_nth:
  assumes "i < length doc" and "int (length doc) \<le> maxInt"
  shows "Eq doc (int i) = Ok [doc ! i]"
  using assms(1) Slice_one [OF assms] by (simp add: Eq_def Let_def)

lemma arrayElems_Ok:
  assumes "k + length xs \<le> length doc" and "int (length doc) \<le> maxInt"
    and "arrayElems env doc av tg (int k) xs = (xs', Ok ())"
  shows "length xs' = length xs \<and>
     (\<forall>i<length xs. unmarshalByType env [doc ! (k + i)] (xs ! i) tg = (xs' ! i, Ok ()))"
  using assms
proof (induction xs arbitrary: k xs')
  case Nil
  then show ?case by simp
next
  case (Cons x rest)
  have eq: "Eq doc (int k) = Ok [doc ! k]"
    using Cons.prems by (intro Eq_nth) simp_all
  obtain x' r where h: "unmarshalByType env [doc ! k] x tg = (x', r)"
    by (cases "unmarshalByType env [doc ! k] x tg")
  obtain rest' r' where t: "arrayElems env doc av tg (int (Suc k)) rest = (rest', r')"
    by (cases "arrayElems env doc av tg (int (Suc k)) rest")
  have r: "r = Ok ()" and r': "r' = Ok ()" and xs': "xs' = x' # rest'"
    using Cons.prems(3) eq h t
    by (auto simp: add.commute split: result.splits)
  have ih: "length rest' = length rest \<and>
      (\<forall>i<length rest. unmarshalByType env [doc ! (Suc k + i)] (rest ! i) tg = (rest' ! i, Ok ()))"
    using Cons.IH [of "Suc k" rest'] Cons.prems(1,2) t r' by simp
  show ?case
    using ih h r xs' by (auto simp: nth_Cons split: nat.splits)
qed

lemma arrayElems_Failed:
  assumes "k + length xs \<le> length doc" and "int (length doc) \<le> maxInt"
    and "arrayElems env doc av tg (int k) xs = (xs', Failed e)"
  shows "\<exists>i<length xs. \<exists>x' err.
     unmarshalByType env [doc ! (k + i)] (xs ! i) tg = (x', Failed err) \<and>
     e = Frame (CannotUnmarshalError (Some err) [] (FInt (int (k + i))) av
           typeConversionError (tag tg))"
  using assms
proof (induction xs arbitrary: k xs')
  case Nil
  then show ?case by simp
next
  case (Cons x rest)
  have eq: "Eq doc (int k) = Ok [doc ! k]"
    using Cons.prems by (intro Eq_nth) simp_all
  obtain x' r where h: "unmarshalByType env [doc ! k] x tg = (x', r)"
    by (cases "unmarshalByType env [doc ! k] x tg")
  obtain rest' r' where t: "arrayElems env doc av tg (int (Suc k)) rest = (rest', r')"
    by (cases "arrayElems env doc av tg (int (Suc k)) rest")
  show ?case
  proof (cases r)
    case (Ok u)
    then have "r' = Failed e"
      using Cons.prems(3) eq h t by (auto simp: add.commute)
    then obtain i x'' err where i: "i < length rest"
      and "unmarshalByType env [doc ! (Suc k + i)] (rest ! i) tg = (x'', Failed err)"
      and "e = Frame (CannotUnmarshalError (Some err) [] (FInt (int (Suc k + i))) av
           typeConversionError (tag tg))"
      using Cons.IH [of "Suc k" rest'] Cons.prems(1,2) t by auto
    then show ?thesis
      by (intro exI [of _ "Suc i"]) simp
  next
    case (Failed err)
    then have "e = Frame (CannotUnmarshalError (Some err) [] (FInt (int k)) av
           typeConversionError (tag tg))"
      using Cons.prems(3) eq h by simp
    then show ?thesis
      using h Failed by (intro exI [of _ 0]) simp
  next
    case Panic
    then show ?thesis
      using Cons.prems(3) eq h by simp
  qed
qed


lemma Reason_differs: "typeConversionError \<noteq> arrayLengthMismatch"
  by (simp add: typeConversionError_def arrayLengthMismatch_def)

text \<open>
  Claim C2. For every array destination and every Selection (of a length that a Go \<open>int\<close>
  holds): decoding fails with the reason ArrayLengthMismatch if and only if the length of the
  Selection differs from the declared length of the array, and then the array is left as it was;
  on success, element \<open>i\<close> of the array is what decoding the \<open>i\<close>-th node of the Selection
  into the element \<open>i\<close> leaves; and when the lengths agree, a failure is the failure of some
  element \<open>i\<close>, wrapped in a frame whose \<open>FldOrIdx\<close> is \<open>i\<close>.
\<close>

theorem C2_fixed_length_array:
  assumes "int (length doc) \<le> maxInt"
  shows "((\<exists>f. snd (unmarshalArray env doc (VArray eleT vs) tg) = Failed (Frame f) \<and>
            Reason f = arrayLengthMismatch) \<longleftrightarrow> length vs \<noteq> length doc) \<and>
     (length vs \<noteq> length doc \<longrightarrow>
        fst (unmarshalArray env doc (VArray eleT vs) tg) = VArray eleT vs) \<and>
     (\<forall>v'. unmarshalArray env doc (VArray eleT vs) tg = (v', Ok ()) \<longrightarrow>
        (\<exists>vs'. v' = VArray eleT vs' \<and> length vs' = length vs \<and>
           (\<forall>i<length vs. unmarshalByType env [doc ! i] (vs ! i) tg = (vs' ! i, Ok ())))) \<and>
     (\<forall>v' e. length vs = length doc \<and>
        unmarshalArray env doc (VArray eleT vs) tg = (v', Failed e) \<longrightarrow>
        (\<exists>i<length vs. \<exists>x' err.
           unmarshalByType env [doc ! i] (vs ! i) tg = (x', Failed err) \<and>
           e = Frame (CannotUnmarshalError (Some err) [] (FInt (int i))
                 (RValue True (TArray (length vs) eleT)) typeConversionError (tag tg))))"
proof -
  let ?av = "RValue True (TArray (length vs) eleT)"
  obtain vs' r where l: "arrayElems env doc ?av tg 0 vs = (vs', r)"
    by (cases "arrayElems env doc ?av tg 0 vs")
  have mis: "unmarshalArray env doc (VArray eleT vs) tg =
      (VArray eleT vs, Failed (Frame (CannotUnmarshalError None [] FNil ?av
         arrayLengthMismatch (tag tg))))"
    if "length vs \<noteq> length doc"
    using that by (simp add: unmarshalArray.simps)
  have same: "unmarshalArray env doc (VArray eleT vs) tg = (VArray eleT vs', r)"
    if "length vs = length doc"
    using that l by (simp add: unmarshalArray.simps)
  have ok: "length vs' = length vs \<and>
      (\<forall>i<length vs. unmarshalByType env [doc ! i] (vs ! i) tg = (vs' ! i, Ok ()))"
    if "length vs = length doc" and "r = Ok ()"
    using arrayElems_Ok [of 0 vs doc env ?av tg vs'] that l assms by simp
  have bad: "\<exists>i<length vs. \<exists>x' err.
      unmarshalByType env [doc ! i] (vs ! i) tg = (x', Failed err) \<and>
      e = Frame (CannotUnmarshalError (Some err) [] (FInt (int i)) ?av
            typeConversionError (tag tg))"
    if "length vs = length doc" and "r = Failed e" for e
    using arrayElems_Failed [of 0 vs doc env ?av tg vs' e] that l assms by simp
  have iff: "(\<exists>f. snd (unmarshalArray env doc (VArray eleT vs) tg) = Failed (Frame f) \<and>
      Reason f = arrayLengthMismatch) \<longleftrightarrow> length vs \<noteq> length doc"
  proof (cases "length vs = length doc")
    case True
    have "Reason f \<noteq> arrayLengthMismatch" if "r = Failed (Frame f)" for f
      using bad [OF True that] Reason_differs by auto
    then show ?thesis
      using True same [OF True] by auto
  next
    case False
    then show ?thesis
      using mis [OF False] by simp
  qed
  have succ: "\<exists>vs'. v' = VArray eleT vs' \<and> length vs' = length vs \<and>
      (\<forall>i<length vs. unmarshalByType env [doc ! i] (vs ! i) tg = (vs' ! i, Ok ()))"
    if "unmarshalArray env doc (VArray eleT vs) tg = (v', Ok ())" for v'
  proof (cases "length vs = length doc")
    case True
    then show ?thesis
      using that same [OF True] ok [OF True] by auto
  next
    case False
    then show ?thesis
      using that mis [OF False] by simp
  qed
  have fail: "\<exists>i<length vs. \<exists>x' err.
      unmarshalByType env [doc ! i] (vs ! i) tg = (x', Failed err) \<and>
      e = Frame (CannotUnmarshalError (Some err) [] (FInt (int i)) ?av
            typeConversionError (tag tg))"
    if "length vs = length doc" and "unmarshalArray env doc (VArray eleT vs) tg = (v', Failed e)"
    for v' e
    using that same [OF that(1)] bad [OF that(1)] by auto
  show ?thesis
    using iff mis succ fail by (intro conjI allI impI) auto
qed


definition lis_example :: document where
  "lis_example =
     [Node ElementNode ''li'' [] [Node TextNode '' 3 '' [] []],
      Node ElementNode ''li'' [] [Node TextNode ''1'' [] []]]"

definition li_tag :: xpathTag where
  "li_tag = \<lparr>tag = ''./li'', required = True\<rparr>"

lemma maxInt_example: "int (length lis_example) \<le> maxInt"
  by (simp add: lis_example_def maxInt_def)

text \<open>
  The theorem at the two \<open>li\<close> of the example: an array of one string (a mismatch) and one of
  two strings.
\<close>

theorem C2_fixed_length_array_witness:
  "fst (unmarshalArray env_example lis_example (VArray TString [VString []]) li_tag) =
     VArray TString [VString []] \<and>
   (\<exists>f. snd (unmarshalArray env_example lis_example (VArray TString [VString []]) li_tag) =
          Failed (Frame f) \<and> Reason f = arrayLengthMismatch) \<and>
   unmarshalArray env_example lis_example (VArray TString [VString [], VString []]) li_tag =
     (VArray TString [VString ''3'', VString ''1''], Ok ()) \<and>
   unmarshalByType env_example [lis_example ! 1] (VString []) li_tag = (VString ''1'', Ok ())"
proof -
  note t = C2_fixed_length_array [OF maxInt_example, of env_example TString _ li_tag]
  have a: "fst (unmarshalArray env_example lis_example (VArray TString [VString []]) li_tag) =
      VArray TString [VString []]"
    and b: "\<exists>f. snd (unmarshalArray env_example lis_example (VArray TString [VString []]) li_tag) =
      Failed (Frame f) \<and> Reason f = arrayLengthMismatch"
    using t [of "[VString []]"] by (simp_all add: lis_example_def)
  have c: "unmarshalArray env_example lis_example (VArray TString [VString [], VString []]) li_tag =
      (VArray TString [VString ''3'', VString ''1''], Ok ())"
    by (simp add: decoder_simps maxInt_def lis_example_def li_tag_def)
  have d: "unmarshalByType env_example [lis_example ! 1] (VString []) li_tag = (VString ''1'', Ok ())"
    using t [of "[VString [], VString []]"] c by (auto simp: lis_example_def)
  show ?thesis
    using a b c d by simp
qed

lemma sliceElems_Ok:
  assumes "k \<le> length doc" and "int (length doc) \<le> maxInt"
    and "sliceElems env doc eleT tg (int k) acc = (es, Ok ())"
  shows "\<exists>new. es = acc @ new \<and> length new = length doc - k \<and>
     (\<forall>i<length doc - k. \<exists>p.
        unmarshalByType env [doc ! (k + i)]
          (VPtr (TypeDeref eleT) (Some (zero (TypeDeref eleT)))) tg = (p, Ok ()) \<and>
        appendElem eleT p = Ok (new ! i))"
  using assms
proof (induction "length doc - k" arbitrary: k acc)
  case 0
  then have "k = length doc" by simp
  then have "sliceElems env doc eleT tg (int k) acc = (acc, Ok ())"
    by (subst sliceElems.simps) (simp add: Length_def)
  then show ?case
    using 0 by simp
next
  case (Suc n)
  let ?newV = "VPtr (TypeDeref eleT) (Some (zero (TypeDeref eleT)))"
  have k: "k < length doc"
    using Suc.hyps(2) by simp
  have eq: "Eq doc (int k) = Ok [doc ! k]"
    using k Suc.prems(2) by (rule Eq_nth)
  obtain p r where h: "unmarshalByType env [doc ! k] ?newV tg = (p, r)"
    by (cases "unmarshalByType env [doc ! k] ?newV tg")
  have step: "sliceElems env doc eleT tg (int k) acc =
      (case r of
         Failed err \<Rightarrow>
           (acc, Failed (Frame (CannotUnmarshalError (Some err) [] (FInt (int k))
              (RValue (k = 0) (TSlice eleT)) typeConversionError (tag tg))))
       | Panic \<Rightarrow> (acc, Panic)
       | Ok u \<Rightarrow>
           (case appendElem eleT p of
              Ok e \<Rightarrow> sliceElems env doc eleT tg (int k + 1) (acc @ [e])
            | _ \<Rightarrow> (acc, Panic)))"
    using k eq h
    by (subst sliceElems.simps) (simp add: Length_def Let_def del: zero.simps)
  have suc: "int k + 1 = int (Suc k)"
    by simp
  from Suc.prems(3) step obtain e where r: "r = Ok ()" and a: "appendElem eleT p = Ok e"
    and rest: "sliceElems env doc eleT tg (int (Suc k)) (acc @ [e]) = (es, Ok ())"
    unfolding suc by (auto split: result.splits)
  have "n = length doc - Suc k"
    using Suc.hyps(2) by simp
  from Suc.hyps(1) [OF this _ Suc.prems(2) rest] k
  obtain new where new: "es = (acc @ [e]) @ new" "length new = length doc - Suc k"
    "\<forall>i<length doc - Suc k. \<exists>p.
        unmarshalByType env [doc ! (Suc k + i)] ?newV tg = (p, Ok ()) \<and>
        appendElem eleT p = Ok (new ! i)"
    by auto
  have "\<forall>i<length doc - k. \<exists>p.
      unmarshalByType env [doc ! (k + i)] ?newV tg = (p, Ok ()) \<and>
      appendElem eleT p = Ok ((e # new) ! i)"
  proof (intro allI impI)
    fix i
    assume i: "i < length doc - k"
    show "\<exists>p. unmarshalByType env [doc ! (k + i)] ?newV tg = (p, Ok ()) \<and>
        appendElem eleT p = Ok ((e # new) ! i)"
    proof (cases i)
      case 0
      then show ?thesis
        using h r a by auto
    next
      case (Suc j)
      then have "j < length doc - Suc k"
        using i by simp
      then show ?thesis
        using new(3) Suc by auto
    qed
  qed
  then show ?case
    using new(1,2) k by (intro exI [of _ "e # new"]) auto
qed

text \<open>
  Claim C10. For every slice destination and every Selection (of a length that a Go \<open>int\<close>
  holds): the elements that the slice holds before the call do not matter, the result is that of
  decoding into the empty slice; a successful decode leaves the slice with exactly one element
  per node of the Selection, in document order, element \<open>i\<close> being what decoding the \<open>i\<close>-th
  node into a freshly allocated zero element leaves; and a decode that does not succeed leaves
  the slice with the length 0 to which it was truncated.
\<close>

theorem C10_slice_truncated_and_filled:
  assumes "int (length doc) \<le> maxInt"
  shows "unmarshalSlice env doc (VSlice eleT old) tg = unmarshalSlice env doc (VSlice eleT []) tg \<and>
     (\<forall>v'. unmarshalSlice env doc (VSlice eleT old) tg = (v', Ok ()) \<longrightarrow>
        (\<exists>es. v' = VSlice eleT es \<and> length es = length doc \<and>
           (\<forall>i<length doc. \<exists>p.
              unmarshalByType env [doc ! i]
                (VPtr (TypeDeref eleT) (Some (zero (TypeDeref eleT)))) tg = (p, Ok ()) \<and>
              appendElem eleT p = Ok (es ! i)))) \<and>
     (\<forall>v' r. unmarshalSlice env doc (VSlice eleT old) tg = (v', r) \<and> r \<noteq> Ok () \<longrightarrow>
        v' = VSlice eleT [])"
proof -
  obtain es r where l: "sliceElems env doc eleT tg 0 [] = (es, r)"
    by (cases "sliceElems env doc eleT tg 0 []")
  have u: "unmarshalSlice env doc (VSlice eleT vs) tg =
      (case r of Ok u \<Rightarrow> (VSlice eleT es, Ok ()) | _ \<Rightarrow> (VSlice eleT [], r))" for vs
    using l by (simp add: unmarshalSlice.simps SetLen_def)
  have ok: "length es = length doc \<and>
      (\<forall>i<length doc. \<exists>p.
         unmarshalByType env [doc ! i]
           (VPtr (TypeDeref eleT) (Some (zero (TypeDeref eleT)))) tg = (p, Ok ()) \<and>
         appendElem eleT p = Ok (es ! i))"
    if "r = Ok ()"
    using sliceElems_Ok [of 0 doc env eleT tg "[]" es] assms l that by auto
  show ?thesis
    using ok by (auto simp: u split: result.splits)
qed

text \<open>
  The theorem at the two \<open>li\<close> of the example: a slice of integers that holds three elements
  before the call, and a slice of booleans whose first element fails.
\<close>

theorem C10_slice_truncated_and_filled_witness:
  "unmarshalSlice env_example lis_example (VSlice (TInt 64) [VInt 64 7, VInt 64 8, VInt 64 9]) li_tag =
     (VSlice (TInt 64) [VInt 64 3, VInt 64 1], Ok ()) \<and>
   unmarshalSlice env_example lis_example (VSlice TBool [VBool True]) li_tag =
     (VSlice TBool [],
      Failed (Frame (CannotUnmarshalError
        (Some (Frame (CannotUnmarshalError (Some (syntax_error ''ParseBool'' ''3'')) ''3'' FNil
           (RValue True TBool) typeConversionError ''./li'')))
        [] (FInt 0) (RValue True (TSlice TBool)) typeConversionError ''./li'')))"
proof -
  have a: "unmarshalSlice env_example lis_example (VSlice (TInt 64) []) li_tag =
      (VSlice (TInt 64) [VInt 64 3, VInt 64 1], Ok ())"
    by (simp add: decoder_simps maxInt_def example_simps lis_example_def li_tag_def)
  have b: "snd (unmarshalSlice env_example lis_example (VSlice TBool [VBool True]) li_tag) =
      Failed (Frame (CannotUnmarshalError
        (Some (Frame (CannotUnmarshalError (Some (syntax_error ''ParseBool'' ''3'')) ''3'' FNil
           (RValue True TBool) typeConversionError ''./li'')))
        [] (FInt 0) (RValue True (TSlice TBool)) typeConversionError ''./li''))"
    by (simp add: decoder_simps maxInt_def example_simps lis_example_def li_tag_def)
  show ?thesis
    using C10_slice_truncated_and_filled [OF maxInt_example, of env_example "TInt 64"
        "[VInt 64 7, VInt 64 8, VInt 64 9]" li_tag]
      C10_slice_truncated_and_filled [OF maxInt_example, of env_example TBool
        "[VBool True]" li_tag] a b
    by (metis prod.collapse result.distinct(1))
qed


section \<open>Scalars\<close>

text \<open>
  What \<open>unmarshalLiteral\<close> does for the three numeric kinds and for a boolean: empty text
  leaves a number as it is, and a parse failure of a number is an error only for a required
  field; a parse failure of a boolean is an error whatever the required flag is. The error
  becomes the cause of a frame with the reason TypeConversionError that carries the literal.
\<close>

lemma unmarshalLiteral_Int:
  "unmarshalLiteral env s (VInt w x) required' =
     (if TrimSpace s = [] then (VInt w x, None)
      else case ParseInt env (TrimSpace s) of
             Inl err \<Rightarrow> (VInt w x, if required' then Some err else None)
           | Inr i \<Rightarrow> (VInt w (SetInt w i), None))"
  by (simp add: unmarshalLiteral_def Let_def split: sum.splits)

lemma unmarshalLiteral_Uint:
  "unmarshalLiteral env s (VUint w x) required' =
     (if TrimSpace s = [] then (VUint w x, None)
      else case ParseUint env (TrimSpace s) of
             Inl err \<Rightarrow> (VUint w x, if required' then Some err else None)
           | Inr i \<Rightarrow> (VUint w (SetUint w i), None))"
  by (simp add: unmarshalLiteral_def Let_def split: sum.splits)

lemma unmarshalLiteral_Float:
  "unmarshalLiteral env s (VFloat w x) required' =
     (if TrimSpace s = [] then (VFloat w x, None)
      else case ParseFloat env (TrimSpace s) of
             Inl err \<Rightarrow> (VFloat w x, if required' then Some err else None)
           | Inr i \<Rightarrow> (VFloat w (SetFloat env w i), None))"
  by (simp add: unmarshalLiteral_def Let_def split: sum.splits)

lemma unmarshalLiteral_Bool:
  "unmarshalLiteral env s (VBool b) required' =
     (case ParseBool env (TrimSpace s) of
        Inl err \<Rightarrow> (VBool b, Some err)
      | Inr i \<Rightarrow> (VBool i, None))"
  by (simp add: unmarshalLiteral_def Let_def)

lemma unmarshalByType_scalar:
  assumes "Kind (type_of v) \<in> {KBool, KInt, KUint, KFloat, KString}"
    and "fst (indirect v) = None"
  shows "unmarshalByType env doc v t =
     (case unmarshalLiteral env (textVal doc) v (required t) of
        (v', Some err) \<Rightarrow>
          (v', Failed (Frame (CannotUnmarshalError (Some err) (textVal doc) FNil
                  (RValue True (type_of v)) typeConversionError (tag t))))
      | (v', None) \<Rightarrow> (v', Ok ()))"
  using assms
  by (cases v)
    (auto simp: unmarshalByType.simps indirect_def valFunc_def Let_def unmarshalLiteral_def
      split: sum.splits option.splits prod.splits if_splits)

definition fieldFlag :: "gval \<Rightarrow> fval" where
  "fieldFlag v = FVal ''Flag'' [(''xpath'', ''./flag''), (''xpath_required'', ''false'')] v"

text \<open>
  Claim C4, at a field that is not required and whose text is \<open>maybe\<close>: an integer field is
  left at its default with no error, as the claim says, but a boolean field fails with the reason
  TypeConversionError, which the claim says is silently ignored.
\<close>

theorem C4_bool_parse_failure_not_ignored:
  "unmarshalStruct env_example [root_example] (VStruct [fieldFlag (VInt 64 0)]) =
     (VStruct [fieldFlag (VInt 64 0)], Ok ()) \<and>
   unmarshalStruct env_example [root_example] (VStruct [fieldFlag (VBool False)]) =
     (VStruct [fieldFlag (VBool False)],
      Failed (Frame (CannotUnmarshalError
        (Some (Frame (CannotUnmarshalError (Some (syntax_error ''ParseBool'' ''maybe'')) ''maybe''
           FNil (RValue True TBool) typeConversionError ''./flag'')))
        [] (FString ''Flag'') (RValue True (type_of (VStruct [fieldFlag (VBool False)])))
        typeConversionError ''./flag'')))"
  by (simp add: decoder_simps example_simps root_example_def fieldFlag_def)



section \<open>Two tests of the repository\<close>

text \<open>
  \<open>TestUnmarshalError\<close> decodes into a slice of a custom type whose hook fails, and
  \<open>TestMultipleNodesError\<close> reads the message of the frame of claim C3. The messages that
  the tests expect are the ones that the model renders, with the names that package
  \<open>reflect\<close> gives the two types.
\<close>

definition ErrorFooBar :: gtype where
  "ErrorFooBar = TUnmarshaler ''goxtag.ErrorFooBar'' (TStruct [])"

definition fmt_tests :: fmt where
  "fmt_tests =
     \<lparr>Quote = quote_example,
      TypeString = (\<lambda>t. if t = TSlice ErrorFooBar then ''[]goxtag.ErrorFooBar''
                           else if t = TInt 64 then ''int'' else ''?'')\<rparr>"

lemma TestUnmarshalError:
  "snd (Unmarshal env_example [] (Some (VPtr (TSlice ErrorFooBar) (Some (VSlice ErrorFooBar []))))) =
     Failed (Frame (CannotUnmarshalError
       (Some (Frame (CannotUnmarshalError (Some errTestUnmarshal) [] FNil Invalid
          customUnmarshalError [])))
       [] (FInt 0) (RValue True (TSlice ErrorFooBar)) typeConversionError []))"
  "Error fmt_tests (CannotUnmarshalError
       (Some (Frame (CannotUnmarshalError (Some errTestUnmarshal) [] FNil Invalid
          customUnmarshalError [])))
       [] (FInt 0) (RValue True (TSlice ErrorFooBar)) typeConversionError []) =
     Ok (''could not unmarshal into '' @ [CHR 0x27] @ ''[]goxtag.ErrorFooBar[0]'' @ [CHR 0x27] @
         '' (type unknown: invalid value): a custom Unmarshaler implementation threw an error: A wild error appeared'')"
  "Error fmt_tests (CannotUnmarshalError (Some errTestUnmarshal) [] FNil Invalid
       customUnmarshalError []) =
     Ok ''could not unmarshal : A wild error appeared''"
    apply (simp add: Unmarshal_def UnmarshalSelection_def IsNil_def decoder_simps maxInt_def
      example_simps ErrorFooBar_def)
   apply (simp add: Error_def unwind_def unwind_loop.simps errChain_Error_def last'_def
      tPath_def tPath_step_def Sprintf_d_def decimal.simps fmt_tests_def ErrorFooBar_def
      errTestUnmarshal_def customUnmarshalError_def Let_def)
  apply (simp add: Error_def unwind_def unwind_loop.simps errChain_Error_def last'_def
      tPath_def tPath_step_def fmt_tests_def errTestUnmarshal_def Let_def)
  done

lemma TestMultipleNodesError:
  "Error fmt_tests (CannotUnmarshalError None [] FNil (RValue True (TInt 64))
       multipleNodesDetected ''./li'') =
     Ok (''could not unmarshal into '' @ [CHR 0x27] @ ''int'' @ [CHR 0x27] @
         '' (type int): multiple nodes detected for selector tag: '' @ [CHR 0x27] @ ''./li'' @
         [CHR 0x27])"
  by (simp add: Error_def unwind_def unwind_loop.simps errChain_Error_def last'_def
      tPath_def tPath_step_def fmt_tests_def multipleNodesDetected_def Let_def)

end
